theory Spec2Isabelle
  imports Complex_Main "HOL-Library.Word"
begin

section \<open>Primary-object segmentation: data model\<close>

text \<open>
  The module \<^verbatim>\<open>identifyprimaryobjects.py\<close> works on 2-D numpy arrays. An array is
  modelled as the list of its rows. Floating-point pixels are modelled as reals (the
  idealised arithmetic, without rounding), label maps as arrays of integers (0 is
  background; the labels of a well-formed label map are not negative), masks as arrays
  of booleans.
\<close>

type_synonym 'a image = "'a list list"

definition nrows :: "'a image \<Rightarrow> nat" where
  "nrows img = length img"

definition ncols :: "'a image \<Rightarrow> nat" where
  "ncols img = (case img of [] \<Rightarrow> 0 | r # _ \<Rightarrow> length r)"

text \<open>A numpy array of shape (r, c) with at least one pixel.\<close>

definition wf_image :: "'a image \<Rightarrow> bool" where
  "wf_image img = (img \<noteq> [] \<and> ncols img \<noteq> 0 \<and> list_all (\<lambda>r. length r = ncols img) img)"

definition same_shape :: "'a image \<Rightarrow> 'b image \<Rightarrow> bool" where
  "same_shape a b = (map length a = map length b)"

definition img_map :: "('a \<Rightarrow> 'b) \<Rightarrow> 'a image \<Rightarrow> 'b image" where
  "img_map f img = map (map f) img"

definition img_map2 :: "('a \<Rightarrow> 'b \<Rightarrow> 'c) \<Rightarrow> 'a image \<Rightarrow> 'b image \<Rightarrow> 'c image" where
  "img_map2 f a b = map2 (map2 f) a b"

text \<open>\<^verbatim>\<open>a[cond] = 0\<close>: the masked assignment of numpy, returning the new array.\<close>

definition zero_where :: "bool image \<Rightarrow> 'a::zero image \<Rightarrow> 'a image" where
  "zero_where cond a = img_map2 (\<lambda>c x. if c then 0 else x) cond a"

text \<open>The pixels of a label map that carry an object.\<close>

definition nonzero_pixels :: "int image \<Rightarrow> (nat \<times> nat) set" where
  "nonzero_pixels lab = {(i, j). i < length lab \<and> j < length (lab ! i) \<and> lab ! i ! j \<noteq> 0}"

text \<open>Every raise of the module is a value of this type.\<close>

datatype py_error =
    NameError string
  | ValueError string
  | NotImplementedError string
  | IndexError

text \<open>
  The settings of the module that the segmentation reads (\<^verbatim>\<open>create_settings\<close>), with
  the types of their setting classes: \<^verbatim>\<open>IntegerRange\<close>, \<^verbatim>\<open>Integer\<close>,
  \<^verbatim>\<open>Binary\<close>, \<^verbatim>\<open>Float\<close> and \<^verbatim>\<open>Choice\<close> (a string).
\<close>

record settings =
  size_range_min :: int
  size_range_max :: int
  exclude_size :: bool
  exclude_border_objects :: bool
  unclump_method :: string
  watershed_method :: string
  automatic_smoothing :: bool
  smoothing_filter_size :: int
  automatic_suppression :: bool
  maxima_suppression_size :: int
  low_res_maxima :: bool
  fill_holes :: bool
  wants_automatic_log_threshold :: bool
  manual_log_threshold :: real
  wants_automatic_log_diameter :: bool
  log_diameter :: real

definition UN_INTENSITY :: string where "UN_INTENSITY = ''Intensity''"
definition UN_SHAPE :: string where "UN_SHAPE = ''Shape''"
definition UN_LOG :: string where "UN_LOG = ''Laplacian of Gaussian''"
definition UN_NONE :: string where "UN_NONE = ''None''"
definition WA_INTENSITY :: string where "WA_INTENSITY = ''Intensity''"
definition WA_DISTANCE :: string where "WA_DISTANCE = ''Distance''"
definition WA_NONE :: string where "WA_NONE = ''None''"

text \<open>The defaults that \<^verbatim>\<open>create_settings\<close> gives each setting.\<close>

definition default_settings :: settings where
  "default_settings = \<lparr>
     size_range_min = 10, size_range_max = 40,
     exclude_size = True, exclude_border_objects = True,
     unclump_method = UN_INTENSITY, watershed_method = WA_INTENSITY,
     automatic_smoothing = True, smoothing_filter_size = 10,
     automatic_suppression = True, maxima_suppression_size = 7,
     low_res_maxima = True, fill_holes = True,
     wants_automatic_log_threshold = True, manual_log_threshold = 0.5,
     wants_automatic_log_diameter = True, log_diameter = 5 \<rparr>"

section \<open>The image smoother\<close>

text \<open>
  \<^verbatim>\<open>calc_smoothing_filter_size\<close>: \<^verbatim>\<open>2.35*self.size_range.min/3.5\<close> in automatic mode,
  the manual setting otherwise.
\<close>

definition calc_smoothing_filter_size :: "settings \<Rightarrow> real" where
  "calc_smoothing_filter_size cfg =
     (if automatic_smoothing cfg then 2.35 * real_of_int (size_range_min cfg) / 3.5
      else real_of_int (smoothing_filter_size cfg))"

text \<open>Python's \<^verbatim>\<open>int(x)\<close> on a float: truncation towards zero.\<close>

definition py_int :: "real \<Rightarrow> int" where
  "py_int x = (if 0 \<le> x then \<lfloor>x\<rfloor> else \<lceil>x\<rceil>)"

text \<open>
  \<^verbatim>\<open>scipy.ndimage.convolve1d(input, f, axis, mode='constant')\<close> for a kernel of odd
  length: the array is padded with zeros, and output sample i is the sum of
  \<^verbatim>\<open>f[j] * input[i + len(f)//2 - j]\<close>.
\<close>

definition at0 :: "real list \<Rightarrow> int \<Rightarrow> real" where
  "at0 xs k = (if 0 \<le> k \<and> k < int (length xs) then xs ! nat k else 0)"

definition convolve1d_line :: "real list \<Rightarrow> real list \<Rightarrow> real list" where
  "convolve1d_line f xs =
     map (\<lambda>i. \<Sum>j\<leftarrow>[0..<length f]. f ! j * at0 xs (int i + int (length f div 2) - int j))
         [0..<length xs]"

definition convolve1d_axis1 :: "real list \<Rightarrow> real image \<Rightarrow> real image" where
  "convolve1d_axis1 f img = map (convolve1d_line f) img"

definition convolve1d_axis0 :: "real list \<Rightarrow> real image \<Rightarrow> real image" where
  "convolve1d_axis0 f img = transpose (map (convolve1d_line f) (transpose img))"

text \<open>The inner function \<^verbatim>\<open>fgaussian\<close> of \<^verbatim>\<open>smooth_image\<close>.\<close>

definition fgaussian :: "real list \<Rightarrow> real image \<Rightarrow> real image" where
  "fgaussian f img = convolve1d_axis1 f (convolve1d_axis0 f img)"

text \<open>
  \<^verbatim>\<open>smooth_image(image, mask, sigma)\<close>. The guard is \<^verbatim>\<open>filter_size == 0\<close>; any
  other size gives a kernel of half-width \<^verbatim>\<open>max(int(filter_size / 2.0), 1)\<close>. The
  callers pass a sigma that is not zero on this path (1, or the filter size over 2.35).
\<close>

definition gaussian_kernel :: "int \<Rightarrow> real \<Rightarrow> real list" where
  "gaussian_kernel half sigma =
     map (\<lambda>k. 1 / sqrt (2 * pi) / sigma * exp (- 0.5 * (real_of_int k)\<^sup>2 / sigma\<^sup>2))
         [- half..half]"

definition smooth_image :: "settings \<Rightarrow> real image \<Rightarrow> bool image \<Rightarrow> real \<Rightarrow> real image" where
  "smooth_image cfg img msk sigma =
     (let filter_size = calc_smoothing_filter_size cfg in
      if filter_size = 0 then img
      else
        let half = max (py_int (filter_size / 2)) 1;
            f = gaussian_kernel half sigma;
            edge_array = fgaussian f (img_map (\<lambda>b. if b then 1 else 0) msk);
            masked_image = zero_where (img_map Not msk) img
        in img_map2 (\<lambda>x e. x / e) (fgaussian f masked_image) edge_array)"

section \<open>Connected components\<close>

type_synonym pixel = "nat \<times> nat"

definition adjacent8 :: "pixel \<Rightarrow> pixel \<Rightarrow> bool" where
  "adjacent8 p q =
     (fst p \<le> Suc (fst q) \<and> fst q \<le> Suc (fst p) \<and> snd p \<le> Suc (snd q) \<and> snd q \<le> Suc (snd p))"

definition adjacent4 :: "pixel \<Rightarrow> pixel \<Rightarrow> bool" where
  "adjacent4 p q =
     ((fst p = fst q \<and> (snd p = Suc (snd q) \<or> snd q = Suc (snd p))) \<or>
      (snd p = snd q \<and> (fst p = Suc (fst q) \<or> fst q = Suc (fst p))))"

text \<open>The true pixels of a boolean array, in raster order.\<close>

definition pixels_where :: "bool image \<Rightarrow> pixel list" where
  "pixels_where b = [(i, j). i \<leftarrow> [0..<length b], j \<leftarrow> [0..<length (b ! i)], b ! i ! j]"

text \<open>
  The connected components of a list of pixels under an adjacency: a pixel joins, and
  merges, the components that hold a pixel adjacent to it. Folding from the right keeps
  the components in the order of their first pixel.
\<close>

definition add_pixel :: "(pixel \<Rightarrow> pixel \<Rightarrow> bool) \<Rightarrow> pixel \<Rightarrow> pixel list list \<Rightarrow> pixel list list" where
  "add_pixel adj p cs =
     (p # concat (filter (list_ex (adj p)) cs)) # filter (\<lambda>c. \<not> list_ex (adj p) c) cs"

definition components :: "(pixel \<Rightarrow> pixel \<Rightarrow> bool) \<Rightarrow> pixel list \<Rightarrow> pixel list list" where
  "components adj ps = foldr (add_pixel adj) ps []"

fun component_label :: "pixel list list \<Rightarrow> int \<Rightarrow> pixel \<Rightarrow> int" where
  "component_label [] k p = 0"
| "component_label (c # cs) k p = (if List.member c p then k else component_label cs (k + 1) p)"

text \<open>
  \<^verbatim>\<open>scipy.ndimage.label(b, np.ones((3,3),bool))\<close>: the 8-connected components of the
  true pixels, numbered from 1 in the raster order of their first pixel, and their number.
\<close>

definition label :: "bool image \<Rightarrow> int image \<times> nat" where
  "label b =
     (let cs = components adjacent8 (pixels_where b) in
      (map (\<lambda>i. map (\<lambda>j. component_label cs 1 (i, j)) [0..<length (b ! i)]) [0..<length b],
       length cs))"

section \<open>The local maxima detector\<close>

text \<open>
  Modelled from the spec: \<^verbatim>\<open>strel_disk\<close> of \<^verbatim>\<open>cellprofiler.cpmath.cpmorphology\<close>,
  a disk-shaped boolean footprint of the given radius: the grid of offsets from
  \<^verbatim>\<open>-int(radius)\<close> to \<^verbatim>\<open>int(radius)\<close> in both directions, true where the offset lies
  within the radius.
\<close>

definition strel_disk :: "real \<Rightarrow> bool image" where
  "strel_disk radius =
     (let iradius = py_int radius in
      map (\<lambda>x. map (\<lambda>y. real_of_int (x * x + y * y) \<le> radius * radius) [- iradius..iradius])
          [- iradius..iradius])"

text \<open>
  \<^verbatim>\<open>scipy.ndimage.maximum_filter(input, footprint=fp)\<close> with its default boundary mode
  \<^verbatim>\<open>reflect\<close> (d c b a | a b c d | d c b a): the maximum of the input over the true
  offsets of the footprint, centred on the pixel.
\<close>

definition reflect_index :: "nat \<Rightarrow> int \<Rightarrow> nat" where
  "reflect_index n k =
     (let m = k mod (2 * int n) in nat (if m < int n then m else 2 * int n - 1 - m))"

definition footprint_offsets :: "bool image \<Rightarrow> (int \<times> int) list" where
  "footprint_offsets fp =
     [(int a - int (length fp div 2), int b - int (length (fp ! a) div 2)).
        a \<leftarrow> [0..<length fp], b \<leftarrow> [0..<length (fp ! a)], fp ! a ! b]"

definition max_list :: "real list \<Rightarrow> real" where
  "max_list xs = (case xs of [] \<Rightarrow> 0 | x # r \<Rightarrow> fold max r x)"

definition maximum_filter :: "real image \<Rightarrow> bool image \<Rightarrow> real image" where
  "maximum_filter img fp =
     map (\<lambda>i. map (\<lambda>j. max_list (map (\<lambda>(di, dj).
                         img ! reflect_index (length img) (int i + di)
                             ! reflect_index (length (img ! i)) (int j + dj))
                       (footprint_offsets fp)))
               [0..<length (img ! i)])
         [0..<length img]"

text \<open>
  Modelled from the spec: \<^verbatim>\<open>binary_shrink\<close> of \<^verbatim>\<open>cellprofiler.cpmath.cpmorphology\<close>.
  Clusters of touching maxima pixels are eroded down to a single representative pixel.
  The spec does not say which pixel of a cluster survives; the model keeps the first one
  in raster order. A cluster of one pixel is that pixel.
\<close>

definition binary_shrink :: "bool image \<Rightarrow> bool image" where
  "binary_shrink b =
     (let reps = map hd (components adjacent8 (pixels_where b)) in
      map (\<lambda>i. map (\<lambda>j. List.member reps (i, j)) [0..<length (b ! i)]) [0..<length b])"

text \<open>
  The numerical kernels that the module calls and that are not part of it (scipy's
  spline resampling and distance transform, numpy's seeded random generator, and the
  filters, the threshold and the watershed of \<^verbatim>\<open>cellprofiler.cpmath\<close>). They are
  parameters of the model: every theorem below holds for all of them.
\<close>

record kernels =
  map_coordinates :: "real image \<Rightarrow> (real \<times> real) image \<Rightarrow> real image"
  stretch :: "real image \<Rightarrow> bool image \<Rightarrow> real image"
  laplacian_of_gaussian :: "real image \<Rightarrow> bool image \<Rightarrow> int \<Rightarrow> real \<Rightarrow> real image"
  otsu :: "real list \<Rightarrow> real \<Rightarrow> real \<Rightarrow> nat \<Rightarrow> real"
  distance_transform_edt :: "bool image \<Rightarrow> real image"
  random_uniform :: "real \<Rightarrow> real \<Rightarrow> nat \<times> nat \<Rightarrow> real image"
  watershed :: "real image \<Rightarrow> int image \<Rightarrow> bool image \<Rightarrow> bool image \<Rightarrow> int image"
  outline :: "int image \<Rightarrow> int image"

text \<open>\<^verbatim>\<open>np.mgrid[0:r, 0:c].astype(float)\<close>, scaled: the coordinates of a resampling.\<close>

definition mgrid :: "nat \<Rightarrow> nat \<Rightarrow> (real \<Rightarrow> real) \<Rightarrow> (real \<times> real) image" where
  "mgrid r c scale = map (\<lambda>i. map (\<lambda>j. (scale (real i), scale (real j))) [0..<c]) [0..<r]"

text \<open>
  \<^verbatim>\<open>get_maxima(image, labeled_image, maxima_mask, image_resize_factor)\<close>. In the source
  \<^verbatim>\<open>maxima_image\<close> and \<^verbatim>\<open>resized_image\<close> are one array, so the second assignment
  reads the array that the first one wrote. The two assertions on the shape of the
  resampled array hold by the contract of \<^verbatim>\<open>map_coordinates\<close> (its output has the shape
  of the coordinate grid).
\<close>

definition get_maxima :: "kernels \<Rightarrow> real image \<Rightarrow> int image \<Rightarrow> bool image \<Rightarrow> real \<Rightarrow> real image" where
  "get_maxima K img labeled_image maxima_mask image_resize_factor =
     (let resized_image =
            (if image_resize_factor < 1 then
               map_coordinates K img
                 (mgrid (nat \<lceil>real (nrows img) * image_resize_factor\<rceil>)
                        (nat \<lceil>real (ncols img) * image_resize_factor\<rceil>)
                        (\<lambda>x. x / image_resize_factor))
             else img);
          maximum_filtered_image = maximum_filter resized_image maxima_mask;
          maxima_image1 =
            zero_where (img_map2 (<) resized_image maximum_filtered_image) resized_image;
          maxima_image2 = zero_where (img_map (\<lambda>x. x = 0) maxima_image1) maxima_image1;
          binary_maxima_image = img_map (\<lambda>x. 0 < x) maxima_image2;
          inverse_resize_factor = real (nrows img) / real (nrows maxima_image2);
          i_j = mgrid (nrows img) (ncols img) (\<lambda>x. x / inverse_resize_factor);
          binary_maxima_image' =
            (if image_resize_factor < 1 then
               img_map (\<lambda>x. 0.5 < x)
                 (map_coordinates K (img_map (\<lambda>b. if b then 1 else 0) binary_maxima_image) i_j)
             else binary_maxima_image);
          maxima_image3 =
            (if image_resize_factor < 1 then map_coordinates K maxima_image2 i_j
             else maxima_image2);
          shrunk_image = binary_shrink binary_maxima_image';
          maxima_image4 = zero_where (img_map Not shrunk_image) maxima_image3
      in zero_where (img_map (\<lambda>l. l = 0) labeled_image) maxima_image4)"

section \<open>The unclumping step\<close>

text \<open>
  The first half of \<^verbatim>\<open>separate_neighboring_objects\<close>, from the smoothing to the
  \<^verbatim>\<open>else: raise ValueError\<close> of the unclumping modes: it yields \<^verbatim>\<open>maxima_image\<close>,
  \<^verbatim>\<open>distance_transformed_image\<close> (\<^verbatim>\<open>None\<close> unless the Shape mode computed it) and
  \<^verbatim>\<open>maxima_suppression_size\<close>.

  In the Intensity branch the source thresholds a copy of the blurred image, into
  \<^verbatim>\<open>maxima_image\<close>, and then overwrites \<^verbatim>\<open>maxima_image\<close> with
  \<^verbatim>\<open>get_maxima(blurred_image, ...)\<close>: the thresholded copy is never read.

  In the last branch the source evaluates \<^verbatim>\<open>"Unsupported local maxima method: " %
  s(self.unclump_method.value)\<close>; the name \<^verbatim>\<open>s\<close> is not defined, so the evaluation of
  the argument of \<^verbatim>\<open>ValueError\<close> raises \<^verbatim>\<open>NameError\<close>.

  The automatic LoG diameter is an integer division of Python 2; for diameters of at
  least 1 (the setting's \<^verbatim>\<open>minval\<close>) \<^verbatim>\<open>int(diameter * 3/2)\<close> is the truncation
  of the real quotient in both the integer and the float case.
\<close>

definition maxima_image ::
  "settings \<Rightarrow> kernels \<Rightarrow> real image \<Rightarrow> bool image \<Rightarrow> int image \<Rightarrow> real
     \<Rightarrow> py_error + (real image \<times> real image option \<times> real)" where
  "maxima_image cfg K img msk labeled_image threshold =
     (let sigma = calc_smoothing_filter_size cfg / 2.35;
          blurred_image = smooth_image cfg img msk sigma;
          low_res = (low_res_maxima cfg \<and> 10 < size_range_min cfg);
          image_resize_factor = (if low_res then 10 / real_of_int (size_range_min cfg) else 1);
          maxima_suppression_size' =
            (if low_res then
               (if automatic_suppression cfg then 7
                else real_of_int (maxima_suppression_size cfg) * image_resize_factor + 0.5)
             else
               (if automatic_suppression cfg then real_of_int (size_range_min cfg) / 1.5
                else real_of_int (maxima_suppression_size cfg)));
          maxima_mask = strel_disk (maxima_suppression_size' - 0.5)
      in
      if unclump_method cfg = UN_LOG then
        let diameter =
              (if wants_automatic_log_diameter cfg then
                 real_of_int ((min (size_range_max cfg) ((size_range_min cfg)\<^sup>2)
                               + size_range_min cfg * 5) div 6)
               else log_diameter cfg);
            sigma_log = diameter / 2.35;
            shrunken = (image_resize_factor < 1);
            i_j_down = mgrid (nat (py_int (real (nrows img) * image_resize_factor + 1)))
                             (nat (py_int (real (ncols img) * image_resize_factor + 1)))
                             (\<lambda>x. x / image_resize_factor);
            simage = (if shrunken then map_coordinates K img i_j_down else img);
            smask = (if shrunken then
                       img_map (\<lambda>x. 0.99 < x)
                         (map_coordinates K (img_map (\<lambda>b. if b then 1 else 0) msk) i_j_down)
                     else msk);
            diameter' = (if shrunken then diameter * image_resize_factor + 1 else diameter);
            sigma_log' = (if shrunken then sigma_log * image_resize_factor else sigma_log);
            normalized_image = img_map (\<lambda>x. 1 - x) (stretch K simage smask);
            log_image0 = laplacian_of_gaussian K normalized_image smask
                           (py_int (diameter' * 3 / 2)) sigma_log';
            log_image1 =
              (if shrunken then
                 map_coordinates K log_image0
                   (mgrid (nrows img) (ncols img) (\<lambda>x. x * image_resize_factor))
               else log_image0);
            log_image2 = stretch K log_image1 msk;
            log_threshold =
              (if wants_automatic_log_threshold cfg then
                 otsu K (map snd (filter fst (zip (concat msk) (concat log_image2)))) 0 1 256
               else manual_log_threshold cfg);
            log_image3 = img_map (\<lambda>x. (if x < log_threshold then log_threshold else x)
                                         - log_threshold) log_image2
        in Inr (get_maxima K log_image3 labeled_image maxima_mask image_resize_factor,
                None, maxima_suppression_size')
      else if unclump_method cfg = UN_INTENSITY then
        let dim_removed = img_map (\<lambda>x. if x < threshold then 0 else x) blurred_image
        in Inr (get_maxima K blurred_image labeled_image maxima_mask image_resize_factor,
                None, maxima_suppression_size')
      else if unclump_method cfg = UN_SHAPE then
        let edt = distance_transform_edt K (img_map (\<lambda>l. 0 < l) labeled_image);
            distance_transformed_image =
              img_map2 (+) edt (random_uniform K 0 0.001 (nrows edt, ncols edt))
        in Inr (get_maxima K distance_transformed_image labeled_image maxima_mask
                  image_resize_factor,
                Some distance_transformed_image, maxima_suppression_size')
      else Inl (NameError ''global name 's' is not defined''))"

text \<open>\<^verbatim>\<open>np.min\<close> of an array; it raises \<^verbatim>\<open>ValueError\<close> on an array without elements.\<close>

definition np_min :: "real image \<Rightarrow> py_error + real" where
  "np_min a =
     (case concat a of
        [] \<Rightarrow> Inl (ValueError ''zero-size array to reduction operation'')
      | x # r \<Rightarrow> Inr (fold min r x))"

text \<open>
  The assignment of an integer to an element of an \<^verbatim>\<open>int16\<close> array wraps around, and
  so does the negation of an \<^verbatim>\<open>int16\<close> array.
\<close>

definition int16 :: "int \<Rightarrow> int" where
  "int16 x = sint (word_of_int x :: 16 word)"

text \<open>
  \<^verbatim>\<open>separate_neighboring_objects(image, mask, labeled_image, object_count, threshold)\<close>:
  it returns the revised labels, the object count and the maxima suppression size, or
  raises. The markers are an \<^verbatim>\<open>int16\<close> array; the watershed hands back an array of
  marker ids of the markers' type, and the negation of that array is the label map that
  is returned. From the 32768th seed cluster on the marker wraps around, and the label
  that comes back is negative.
\<close>

definition separate_neighboring_objects ::
  "settings \<Rightarrow> kernels \<Rightarrow> real image \<Rightarrow> bool image \<Rightarrow> int image \<Rightarrow> nat \<Rightarrow> real
     \<Rightarrow> py_error + (int image \<times> nat \<times> real)" where
  "separate_neighboring_objects cfg K img msk labeled_image object_count threshold =
     (if unclump_method cfg = UN_NONE \<or> watershed_method cfg = WA_NONE then
        Inr (labeled_image, object_count, 7)
      else
        case maxima_image cfg K img msk labeled_image threshold of
          Inl e \<Rightarrow> Inl e
        | Inr (maxima, dti, maxima_suppression_size') \<Rightarrow>
            (case
               (if watershed_method cfg = WA_INTENSITY then Inr (img_map (\<lambda>x. 1 - x) img)
                else if watershed_method cfg = WA_DISTANCE then
                  (let distance_transformed_image =
                         (case dti of
                            None \<Rightarrow> distance_transform_edt K (img_map (\<lambda>l. 0 < l) labeled_image)
                          | Some d \<Rightarrow> d);
                       negated = img_map uminus distance_transformed_image
                   in case np_min negated of
                        Inl e \<Rightarrow> Inl e
                      | Inr m \<Rightarrow> Inr (img_map (\<lambda>x. x - m) negated))
                else Inl (NotImplementedError
                            (''Watershed method '' @ watershed_method cfg @ '' is not implemented'')))
             of
               Inl e \<Rightarrow> Inl e
             | Inr watershed_image \<Rightarrow>
                 (let (labeled_maxima, object_count') = label (img_map (\<lambda>x. 0 < x) maxima);
                      markers = img_map (\<lambda>l. if 0 < l then int16 (- l) else 0) labeled_maxima;
                      watershed_boundaries =
                        watershed K watershed_image markers
                          [[True, True, True], [True, True, True], [True, True, True]]
                          (img_map (\<lambda>l. l \<noteq> 0) labeled_image)
                  in Inr (img_map (\<lambda>w. int16 (- w)) watershed_boundaries, object_count',
                          maxima_suppression_size'))))"

text \<open>
  The number of seed clusters that \<^verbatim>\<open>separate_neighboring_objects\<close> counts with
  \<^verbatim>\<open>scipy.ndimage.label(maxima_image>0, np.ones((3,3),bool))\<close>, and the number of
  connected foreground components of a label map.
\<close>

definition seed_clusters :: "real image \<Rightarrow> nat" where
  "seed_clusters m = snd (label (img_map (\<lambda>x. 0 < x) m))"

definition foreground_components :: "int image \<Rightarrow> nat" where
  "foreground_components lab = snd (label (img_map (\<lambda>l. l \<noteq> 0) lab))"

section \<open>The post-filter pipeline\<close>

text \<open>
  The image as the module reads it (\<^verbatim>\<open>cellprofiler.cpimage.Image\<close>): the pixel data,
  the mask (all true when none was set) and whether a mask was set.
\<close>

record cp_image =
  pixel_data :: "real image"
  image_mask :: "bool image"
  has_mask :: bool

text \<open>
  \<^verbatim>\<open>scipy.sparse.coo_matrix((ones, (border_labels, zeros)), shape=(n, 1)).todense()\<close>,
  flattened: entry l is the number of occurrences of l among the border labels
  (duplicate entries of a COO matrix are summed). The constructor raises
  \<^verbatim>\<open>ValueError\<close> on a negative row index; \<^verbatim>\<open>filter_on_border\<close> tests for that.
\<close>

definition label_histogram :: "int list \<Rightarrow> nat \<Rightarrow> nat list" where
  "label_histogram border_labels n = map (\<lambda>l. count_list border_labels (int l)) [0..<n]"

text \<open>\<^verbatim>\<open>np.max\<close> of a label map that has at least one pixel.\<close>

definition np_max :: "int image \<Rightarrow> int" where
  "np_max lab = (case concat lab of [] \<Rightarrow> 0 | x # r \<Rightarrow> fold max r x)"

text \<open>
  Indexing a numpy array of length n by an integer array: an index from -n to -1 counts
  from the end, and an index outside -n .. n-1 raises \<^verbatim>\<open>IndexError\<close>.
\<close>

definition index_ok :: "nat \<Rightarrow> int \<Rightarrow> bool" where
  "index_ok n i = (- int n \<le> i \<and> i < int n)"

definition np_index :: "'a list \<Rightarrow> int \<Rightarrow> 'a" where
  "np_index xs i = xs ! nat (if i < 0 then i + int (length xs) else i)"

text \<open>
  \<^verbatim>\<open>histogram_image = histogram[labeled_image]; labeled_image[histogram_image > 0] = 0\<close>.
\<close>

definition zero_histogram_labels :: "nat list \<Rightarrow> int image \<Rightarrow> py_error + int image" where
  "zero_histogram_labels histogram lab =
     (if list_ex (\<lambda>l. \<not> index_ok (length histogram) l) (concat lab) then Inl IndexError
      else
        let histogram_image = img_map (np_index histogram) lab
        in Inr (zero_where (img_map (\<lambda>h. 0 < h) histogram_image) lab))"

text \<open>
  \<^verbatim>\<open>scipy.ndimage.binary_erosion(mask)\<close> with its defaults (the cross-shaped structuring
  element, pixels outside the array false): a pixel stays true when it and its four
  neighbours are true.
\<close>

definition bool_at :: "bool image \<Rightarrow> int \<Rightarrow> int \<Rightarrow> bool" where
  "bool_at m i j =
     (0 \<le> i \<and> i < int (length m) \<and> 0 \<le> j \<and> j < int (length (m ! nat i)) \<and> m ! nat i ! nat j)"

definition binary_erosion :: "bool image \<Rightarrow> bool image" where
  "binary_erosion m =
     map (\<lambda>i. map (\<lambda>j. bool_at m (int i) (int j) \<and> bool_at m (int i - 1) (int j) \<and>
                       bool_at m (int i + 1) (int j) \<and> bool_at m (int i) (int j - 1) \<and>
                       bool_at m (int i) (int j + 1))
               [0..<length (m ! i)])
         [0..<length m]"

text \<open>
  The four border lines that \<^verbatim>\<open>filter_on_border\<close> collects: row 0, column 0, the last
  row and the last column.
\<close>

definition hard_border_labels :: "int image \<Rightarrow> int list" where
  "hard_border_labels lab =
     lab ! 0 @ map (\<lambda>r. r ! 0) lab @ lab ! (nrows lab - 1) @ map (\<lambda>r. r ! (ncols lab - 1)) lab"

text \<open>
  The labels under the border of the mask: \<^verbatim>\<open>labeled_image[mask_border]\<close> with
  \<^verbatim>\<open>mask_border = logical_and(logical_not(binary_erosion(mask)), mask)\<close>. The mask has
  the shape of the label map.
\<close>

definition mask_border_labels :: "bool image \<Rightarrow> int image \<Rightarrow> int list" where
  "mask_border_labels m lab =
     (let mask_border = img_map2 (\<and>) (img_map Not (binary_erosion m)) m
      in map snd (filter fst (zip (concat mask_border) (concat lab))))"

text \<open>
  \<^verbatim>\<open>filter_on_border(image, labeled_image)\<close>. Indexing row 0 or column 0 of an array
  without rows or without columns raises \<^verbatim>\<open>IndexError\<close>; a negative label among
  the border labels makes the construction of the histogram raise \<^verbatim>\<open>ValueError\<close>.
  When the histograms are built the border labels are not negative, so the maximum of
  the label map is not negative either. The text carried by the \<^verbatim>\<open>ValueError\<close> is that
  of scipy's check of the row indices; when every label of the map is negative scipy
  rejects the shape of the histogram first, with another text, which the model does not
  tell apart.
\<close>

definition filter_on_border :: "settings \<Rightarrow> cp_image \<Rightarrow> int image \<Rightarrow> py_error + int image" where
  "filter_on_border cfg cpimg labeled_image =
     (if exclude_border_objects cfg then
        if nrows labeled_image = 0 \<or> ncols labeled_image = 0 then Inl IndexError
        else
          let border_labels = hard_border_labels labeled_image
          in if list_ex (\<lambda>l. l < 0) border_labels then
               Inl (ValueError ''negative row index found'')
             else
               let histogram = label_histogram border_labels (nat (np_max labeled_image + 1))
               in if list_ex (\<lambda>h. 0 < h) (tl histogram) then
                    zero_histogram_labels histogram labeled_image
                  else if has_mask cpimg then
                    let border_labels' = mask_border_labels (image_mask cpimg) labeled_image
                    in if list_ex (\<lambda>l. l < 0) border_labels' then
                         Inl (ValueError ''negative row index found'')
                       else
                         let histogram' =
                               label_histogram border_labels' (nat (np_max labeled_image + 1))
                         in if list_ex (\<lambda>h. 0 < h) (tl histogram') then
                              zero_histogram_labels histogram' labeled_image
                            else Inr labeled_image
                  else Inr labeled_image
      else Inr labeled_image)"

text \<open>
  \<^verbatim>\<open>scipy.ndimage.measurements.sum(np.ones(shape), labeled_image, range(0, object_count+1))\<close>
  as integers: the pixel count of each label from 0 to \<^verbatim>\<open>object_count\<close>.
\<close>

definition label_areas :: "int image \<Rightarrow> nat \<Rightarrow> int list" where
  "label_areas lab object_count =
     map (\<lambda>l. int (count_list (concat lab) (int l))) [0..<object_count + 1]"

text \<open>
  \<^verbatim>\<open>filter_on_size(labeled_image, object_count)\<close>: it returns the filtered labels and the
  labels with only the small objects removed. \<^verbatim>\<open>areas[labeled_image]\<close> raises
  \<^verbatim>\<open>IndexError\<close> when a label is not an index of the \<^verbatim>\<open>object_count + 1\<close> areas.
\<close>

definition filter_on_size ::
  "settings \<Rightarrow> int image \<Rightarrow> nat \<Rightarrow> py_error + (int image \<times> int image)" where
  "filter_on_size cfg labeled_image object_count =
     (if exclude_size cfg \<and> 0 < object_count then
        let areas = label_areas labeled_image object_count;
            min_allowed_area = pi * real_of_int (size_range_min cfg * size_range_min cfg) / 4;
            max_allowed_area = pi * real_of_int (size_range_max cfg * size_range_max cfg) / 4
        in if list_ex (\<lambda>l. \<not> index_ok (object_count + 1) l) (concat labeled_image)
           then Inl IndexError
           else
             let area_image = img_map (np_index areas) labeled_image;
                 labeled_image1 =
                   zero_where (img_map (\<lambda>a. real_of_int a < min_allowed_area) area_image)
                     labeled_image;
                 small_removed_labels = labeled_image1;
                 labeled_image2 =
                   zero_where (img_map (\<lambda>a. max_allowed_area < real_of_int a) area_image)
                     labeled_image1
             in Inr (labeled_image2, small_removed_labels)
      else Inr (labeled_image, labeled_image))"

text \<open>
  Modelled from the spec: \<^verbatim>\<open>relabel\<close> of \<^verbatim>\<open>cellprofiler.cpmath.cpmorphology\<close>. It
  compacts the surviving label ids to a contiguous range starting at 1 and returns the
  number of surviving objects. The model keeps the order of the ids.
\<close>

fun index_of :: "int list \<Rightarrow> int \<Rightarrow> nat" where
  "index_of [] l = 0"
| "index_of (x # xs) l = (if x = l then 0 else Suc (index_of xs l))"

definition relabel :: "int image \<Rightarrow> int image \<times> nat" where
  "relabel lab =
     (let ids = sort (remdups (filter (\<lambda>l. l \<noteq> 0) (concat lab)))
      in (img_map (\<lambda>l. if l = 0 then 0 else 1 + int (index_of ids l)) lab, length ids))"

text \<open>
  Modelled from the spec: \<^verbatim>\<open>fill_labeled_holes\<close> of
  \<^verbatim>\<open>cellprofiler.cpmath.cpmorphology\<close>. Any background-labeled region fully enclosed by
  a single object's foreground is reassigned to that object's label. In the model a
  region is a 4-connected component of the background; it is enclosed by one object when
  it has no pixel on the border of the array and the labeled pixels among the eight
  neighbours of its pixels all carry one label.
\<close>

definition neighbours8 :: "pixel \<Rightarrow> pixel list" where
  "neighbours8 p =
     (let i = fst p; j = snd p in
      [(i - 1, j - 1), (i - 1, j), (i - 1, j + 1), (i, j - 1), (i, j + 1),
       (i + 1, j - 1), (i + 1, j), (i + 1, j + 1)])"

definition enclosing_label :: "int image \<Rightarrow> pixel list \<Rightarrow> int option" where
  "enclosing_label lab region =
     (if list_ex (\<lambda>p. fst p = 0 \<or> snd p = 0 \<or> Suc (fst p) = length lab
                       \<or> Suc (snd p) = length (lab ! fst p)) region
      then None
      else
        case remdups (filter (\<lambda>l. l \<noteq> 0)
               (map (\<lambda>q. lab ! fst q ! snd q) (concat (map neighbours8 region)))) of
          [l] \<Rightarrow> Some l
        | _ \<Rightarrow> None)"

definition fill_labeled_holes :: "int image \<Rightarrow> int image" where
  "fill_labeled_holes lab =
     (let regions = components adjacent4 (pixels_where (img_map (\<lambda>l. l = 0) lab))
      in map (\<lambda>i. map (\<lambda>j.
                  if lab ! i ! j \<noteq> 0 then lab ! i ! j
                  else
                    (case find (\<lambda>r. List.member r (i, j)) regions of
                       None \<Rightarrow> 0
                     | Some r \<Rightarrow> (case enclosing_label lab r of None \<Rightarrow> 0 | Some l \<Rightarrow> l)))
                [0..<length (lab ! i)])
             [0..<length lab])"

text \<open>
  The two diameters that \<^verbatim>\<open>run\<close> appends to its statistics when the module has a
  display frame and \<^verbatim>\<open>object_count > 0\<close>:
  \<^verbatim>\<open>areas = scipy.ndimage.histogram(labeled_image, 1, object_count+1, object_count)\<close>
  (one bin for each label from 1 to \<^verbatim>\<open>object_count\<close>), sorted, read at the ranks
  \<^verbatim>\<open>object_count/10\<close> and \<^verbatim>\<open>object_count*9/10\<close> (integer divisions), and turned
  into \<^verbatim>\<open>math.sqrt(float(area))*2/np.pi\<close>.
\<close>

definition percentile_diameters :: "int image \<Rightarrow> nat \<Rightarrow> (real \<times> real) option" where
  "percentile_diameters labeled_image object_count =
     (if 0 < object_count then
        let areas = sort (map (\<lambda>l. int (count_list (concat labeled_image) (int l)))
                            [1..<object_count + 1]);
            low_diameter = sqrt (real_of_int (areas ! (object_count div 10))) * 2 / pi;
            high_diameter = sqrt (real_of_int (areas ! (object_count * 9 div 10))) * 2 / pi
        in Some (low_diameter, high_diameter)
      else None)"

text \<open>What \<^verbatim>\<open>run\<close> hands to the object set, the display and the measurements.\<close>

record segmentation =
  segmented :: "int image"
  unedited_segmented :: "int image"
  small_removed_segmented :: "int image"
  border_excluded_labeled_image :: "int image"
  size_excluded_labeled_image :: "int image"
  outline_image :: "int image"
  outline_size_excluded_image :: "int image"
  outline_border_excluded_image :: "int image"
  final_object_count :: nat
  diameters :: "(real \<times> real) option"
  final_maxima_suppression_size :: real

text \<open>
  \<^verbatim>\<open>run\<close>, from the smoothing that precedes the binarization. The local and the global
  threshold are the results of the threshold computation, which is outside the module.
  The filters write into \<^verbatim>\<open>labeled_image\<close> in place; the copies that \<^verbatim>\<open>run\<close> takes
  before each filter are the values bound here before each step.
\<close>

definition run ::
  "settings \<Rightarrow> kernels \<Rightarrow> cp_image \<Rightarrow> real image \<Rightarrow> real \<Rightarrow> py_error + segmentation" where
  "run cfg K cpimg local_threshold global_threshold =
     (let img = pixel_data cpimg;
          msk = image_mask cpimg;
          blurred_image = smooth_image cfg img msk 1;
          binary_image =
            img_map2 (\<and>) (img_map2 (\<lambda>b t. t \<le> b) blurred_image local_threshold) msk;
          labeled0 = fst (label binary_image);
          object_count0 = snd (label binary_image);
          labeled1 = (if fill_holes cfg then fill_labeled_holes labeled0 else labeled0)
      in case separate_neighboring_objects cfg K img msk labeled1 object_count0
                global_threshold of
           Inl e \<Rightarrow> Inl e
         | Inr (unedited_labels, object_count1, maxima_suppression_size') \<Rightarrow>
             (case filter_on_border cfg cpimg unedited_labels of
                Inl e \<Rightarrow> Inl e
              | Inr labeled2 \<Rightarrow>
                  (let border_excluded =
                         zero_where (img_map (\<lambda>l. 0 < l) labeled2) unedited_labels
                   in case filter_on_size cfg labeled2 object_count1 of
                        Inl e \<Rightarrow> Inl e
                      | Inr (labeled3, small_removed_labels) \<Rightarrow>
                          (let size_excluded =
                                 zero_where (img_map (\<lambda>l. 0 < l) labeled3) labeled2;
                               labeled4 = fst (relabel labeled3);
                               object_count2 = snd (relabel labeled3);
                               labeled5 = (if fill_holes cfg then fill_labeled_holes labeled4
                                           else labeled4)
                           in Inr \<lparr>
                                segmented = labeled5,
                                unedited_segmented = unedited_labels,
                                small_removed_segmented = small_removed_labels,
                                border_excluded_labeled_image = border_excluded,
                                size_excluded_labeled_image = size_excluded,
                                outline_image = outline K labeled5,
                                outline_size_excluded_image = outline K size_excluded,
                                outline_border_excluded_image = outline K border_excluded,
                                final_object_count = object_count2,
                                diameters = percentile_diameters labeled5 object_count2,
                                final_maxima_suppression_size = maxima_suppression_size' \<rparr>))))"

text \<open>The pixel count of a label.\<close>

definition object_area :: "int image \<Rightarrow> int \<Rightarrow> nat" where
  "object_area lab l = count_list (concat lab) l"

text \<open>An object touches the border when one of its pixels lies on row 0, the last row,
  column 0 or the last column of the array.\<close>

definition touches_border :: "int image \<Rightarrow> int \<Rightarrow> bool" where
  "touches_border lab l =
     (\<exists>i j. i < nrows lab \<and> j < ncols lab \<and>
            (i = 0 \<or> i = nrows lab - 1 \<or> j = 0 \<or> j = ncols lab - 1) \<and> lab ! i ! j = l)"

text \<open>
  A pixel is on the border of the mask when it is valid and one of its four neighbours
  (above, below, left, right) is invalid or lies outside the array. An object touches
  the border of the mask when one of its pixels is on it.
\<close>

definition on_mask_border :: "bool image \<Rightarrow> nat \<Rightarrow> nat \<Rightarrow> bool" where
  "on_mask_border m i j =
     (m ! i ! j \<and>
      (i = 0 \<or> j = 0 \<or> i + 1 = nrows m \<or> j + 1 = ncols m \<or>
       \<not> m ! (i - 1) ! j \<or> \<not> m ! (i + 1) ! j \<or> \<not> m ! i ! (j - 1) \<or> \<not> m ! i ! (j + 1)))"

definition touches_mask_border :: "bool image \<Rightarrow> int image \<Rightarrow> int \<Rightarrow> bool" where
  "touches_mask_border m lab l =
     (\<exists>i j. i < nrows lab \<and> j < ncols lab \<and> on_mask_border m i j \<and> lab ! i ! j = l)"

section \<open>Example inputs\<close>

text \<open>
  Kernels for the runs below that never call them (no resampling, no LoG, no distance
  transform, no watershed): each one hands its input back.
\<close>

definition idle_kernels :: kernels where
  "idle_kernels = \<lparr>
     map_coordinates = (\<lambda>img grid. img),
     stretch = (\<lambda>img m. img),
     laplacian_of_gaussian = (\<lambda>img m d s. img),
     otsu = (\<lambda>xs lo hi bins. 0),
     distance_transform_edt = (\<lambda>b. img_map (\<lambda>_. 0) b),
     random_uniform = (\<lambda>lo hi shape. []),
     watershed = (\<lambda>img markers conn m. markers),
     outline = (\<lambda>l. l) \<rparr>"

text \<open>No smoothing (manual filter size 0), full resolution, manual suppression size.\<close>

definition unsmoothed_settings :: "int \<Rightarrow> settings" where
  "unsmoothed_settings suppression =
     default_settings\<lparr>automatic_smoothing := False, smoothing_filter_size := 0,
       low_res_maxima := False, automatic_suppression := False,
       maxima_suppression_size := suppression\<rparr>"

text \<open>A manual smoothing filter size below zero (the setting has no lower bound).\<close>

definition negative_filter_settings :: settings where
  "negative_filter_settings =
     default_settings\<lparr>automatic_smoothing := False, smoothing_filter_size := - 2\<rparr>"

text \<open>Three objects of 1, 5 and 16 pixels.\<close>

definition three_sizes :: "int image" where
  "three_sizes = [[1, 0, 2, 2, 2, 2, 2, 0], [3, 3, 3, 3, 3, 3, 3, 3], [3, 3, 3, 3, 3, 3, 3, 3]]"

text \<open>
  Label maps with an object in the corner and one inside, and an image whose mask has
  one invalid pixel next to the inner object.
\<close>

definition corner_and_centre :: "int image" where
  "corner_and_centre = [[1, 0, 0, 0], [0, 0, 2, 0], [0, 0, 0, 0]]"

definition centre_only :: "int image" where
  "centre_only = [[0, 0, 0, 0], [0, 0, 2, 0], [0, 0, 0, 0]]"

definition notched_image :: cp_image where
  "notched_image = \<lparr>pixel_data = [[0, 0, 0, 0], [0, 0, 1, 0], [0, 0, 0, 0]],
     image_mask = [[True, True, True, True], [True, True, True, False], [True, True, True, True]],
     has_mask = True\<rparr>"

text \<open>
  Two one-pixel objects in the interior of a 5 by 5 array, under a mask with one invalid
  pixel above the second object, and under a mask whose only invalid pixel is a corner.
\<close>

definition two_interior :: "int image" where
  "two_interior = [[0, 0, 0, 0, 0], [0, 0, 0, 0, 0], [0, 0, 0, 2, 0], [0, 1, 0, 0, 0],
                   [0, 0, 0, 0, 0]]"

definition pierced_image :: cp_image where
  "pierced_image = \<lparr>pixel_data = [[0, 0, 0, 0, 0], [0, 0, 0, 0, 0], [0, 0, 0, 1, 0],
                                   [0, 1, 0, 0, 0], [0, 0, 0, 0, 0]],
     image_mask = [[True, True, True, True, True], [True, True, True, False, True],
                   [True, True, True, True, True], [True, True, True, True, True],
                   [True, True, True, True, True]],
     has_mask = True\<rparr>"

definition corner_masked_image :: cp_image where
  "corner_masked_image = \<lparr>pixel_data = [[0, 0, 0, 0, 0], [0, 0, 0, 0, 0], [0, 0, 0, 1, 0],
                                         [0, 1, 0, 0, 0], [0, 0, 0, 0, 0]],
     image_mask = [[False, True, True, True, True], [True, True, True, True, True],
                   [True, True, True, True, True], [True, True, True, True, True],
                   [True, True, True, True, True]],
     has_mask = True\<rparr>"













section \<open>Properties\<close>

subsection \<open>The size of the smoothing filter\<close>

text \<open>
  Claim C10. In automatic mode \<^verbatim>\<open>calc_smoothing_filter_size\<close> returns
  2.35 * min_diameter / 3.5, so that the sigma that the unclumping step derives from it
  (the size over 2.35) is min_diameter / 3.5; in manual mode it returns the
  user-supplied smoothing filter size.
\<close>

theorem calc_smoothing_filter_size_modes:
  "(automatic_smoothing cfg \<longrightarrow>
      calc_smoothing_filter_size cfg = 2.35 * real_of_int (size_range_min cfg) / 3.5 \<and>
      calc_smoothing_filter_size cfg / 2.35 = real_of_int (size_range_min cfg) / 3.5) \<and>
   (\<not> automatic_smoothing cfg \<longrightarrow>
      calc_smoothing_filter_size cfg = real_of_int (smoothing_filter_size cfg))"
  by (simp add: calc_smoothing_filter_size_def)

theorem calc_smoothing_filter_size_modes_witness:
  "automatic_smoothing default_settings \<and>
   calc_smoothing_filter_size default_settings = 2.35 * 10 / 3.5 \<and>
   calc_smoothing_filter_size default_settings / 2.35 = 10 / 3.5 \<and>
   \<not> automatic_smoothing (default_settings\<lparr>automatic_smoothing := False\<rparr>) \<and>
   calc_smoothing_filter_size (default_settings\<lparr>automatic_smoothing := False\<rparr>) = 10"
  using calc_smoothing_filter_size_modes [of default_settings]
        calc_smoothing_filter_size_modes [of "default_settings\<lparr>automatic_smoothing := False\<rparr>"]
  by (simp add: default_settings_def)


subsection \<open>The fast path of the unclumping step\<close>

text \<open>
  Claim C3. If the unclumping mode is None or the dividing-line mode is None,
  \<^verbatim>\<open>separate_neighboring_objects\<close> returns the input labeled image and the input
  object count unchanged, with the fixed maxima suppression size 7; the result does not
  depend on the image, the mask, the threshold or any kernel (nothing is smoothed,
  no maxima are sought, no watershed runs).
\<close>

theorem separate_neighboring_objects_none:
  assumes "unclump_method cfg = UN_NONE \<or> watershed_method cfg = WA_NONE"
  shows "separate_neighboring_objects cfg K img msk labeled_image object_count threshold
           = Inr (labeled_image, object_count, 7)"
  using assms by (simp add: separate_neighboring_objects_def)

theorem separate_neighboring_objects_none_witness:
  "separate_neighboring_objects (default_settings\<lparr>unclump_method := UN_NONE\<rparr>) idle_kernels
     [[0.5, 0.7]] [[True, True]] [[1, 1]] 1 0.5 = Inr ([[1, 1]], 1, 7) \<and>
   separate_neighboring_objects (default_settings\<lparr>watershed_method := WA_NONE\<rparr>) idle_kernels
     [[0.5, 0.7]] [[True, True]] [[1, 1]] 1 0.5 = Inr ([[1, 1]], 1, 7)"
  using separate_neighboring_objects_none
          [of "default_settings\<lparr>unclump_method := UN_NONE\<rparr>" idle_kernels
              "[[0.5, 0.7]]" "[[True, True]]" "[[1, 1]]" 1 "0.5"]
        separate_neighboring_objects_none
          [of "default_settings\<lparr>watershed_method := WA_NONE\<rparr>" idle_kernels
              "[[0.5, 0.7]]" "[[True, True]]" "[[1, 1]]" 1 "0.5"]
  by simp

subsection \<open>Unsupported modes\<close>

lemma maxima_image_supported:
  assumes "unclump_method cfg \<in> {UN_INTENSITY, UN_SHAPE, UN_LOG}"
  shows "\<exists>m d s. maxima_image cfg K img msk lab t = Inr (m, d, s)"
  using assms by (auto simp add: maxima_image_def Let_def)

lemma maxima_image_unsupported:
  assumes "unclump_method cfg \<notin> {UN_INTENSITY, UN_SHAPE, UN_LOG}"
  shows "maxima_image cfg K img msk lab t = Inl (NameError ''global name 's' is not defined'')"
  using assms by (simp add: maxima_image_def Let_def)

text \<open>
  Claim C7, as the code has it. When neither mode is None: an unsupported unclumping
  string makes \<^verbatim>\<open>separate_neighboring_objects\<close> raise, with no labeling produced; a
  supported unclumping mode with an unsupported dividing-line string makes it raise
  \<^verbatim>\<open>NotImplementedError\<close> with a message that names the mode.
\<close>

theorem separate_neighboring_objects_unsupported:
  "(unclump_method cfg \<notin> {UN_INTENSITY, UN_SHAPE, UN_LOG, UN_NONE} \<and>
    watershed_method cfg \<noteq> WA_NONE \<longrightarrow>
      (\<exists>e. separate_neighboring_objects cfg K img msk lab n t = Inl e)) \<and>
   (unclump_method cfg \<in> {UN_INTENSITY, UN_SHAPE, UN_LOG} \<and>
    watershed_method cfg \<notin> {WA_INTENSITY, WA_DISTANCE, WA_NONE} \<longrightarrow>
      separate_neighboring_objects cfg K img msk lab n t =
        Inl (NotImplementedError
               (''Watershed method '' @ watershed_method cfg @ '' is not implemented'')))"
proof (intro conjI impI)
  assume a: "unclump_method cfg \<notin> {UN_INTENSITY, UN_SHAPE, UN_LOG, UN_NONE} \<and>
             watershed_method cfg \<noteq> WA_NONE"
  then have "maxima_image cfg K img msk lab t = Inl (NameError ''global name 's' is not defined'')"
    by (intro maxima_image_unsupported) simp
  with a show "\<exists>e. separate_neighboring_objects cfg K img msk lab n t = Inl e"
    by (simp add: separate_neighboring_objects_def)
next
  assume a: "unclump_method cfg \<in> {UN_INTENSITY, UN_SHAPE, UN_LOG} \<and>
             watershed_method cfg \<notin> {WA_INTENSITY, WA_DISTANCE, WA_NONE}"
  then obtain m d s where ms: "maxima_image cfg K img msk lab t = Inr (m, d, s)"
    using maxima_image_supported [of cfg K img msk lab t] by blast
  from a have "unclump_method cfg \<noteq> UN_NONE"
    by (auto simp add: UN_INTENSITY_def UN_SHAPE_def UN_LOG_def UN_NONE_def)
  with a ms show "separate_neighboring_objects cfg K img msk lab n t =
        Inl (NotImplementedError
               (''Watershed method '' @ watershed_method cfg @ '' is not implemented''))"
    by (simp add: separate_neighboring_objects_def)
qed

theorem separate_neighboring_objects_unsupported_witness:
  "(\<exists>e. separate_neighboring_objects (default_settings\<lparr>unclump_method := ''Bogus''\<rparr>)
          idle_kernels [[0.5]] [[True]] [[1]] 1 0.5 = Inl e) \<and>
   separate_neighboring_objects (default_settings\<lparr>watershed_method := ''Bogus''\<rparr>)
     idle_kernels [[0.5]] [[True]] [[1]] 1 0.5 =
     Inl (NotImplementedError ''Watershed method Bogus is not implemented'')"
  using separate_neighboring_objects_unsupported
          [of "default_settings\<lparr>unclump_method := ''Bogus''\<rparr>" idle_kernels
              "[[0.5]]" "[[True]]" "[[1]]" 1 "0.5"]
        separate_neighboring_objects_unsupported
          [of "default_settings\<lparr>watershed_method := ''Bogus''\<rparr>" idle_kernels
              "[[0.5]]" "[[True]]" "[[1]]" 1 "0.5"]
  by (simp add: default_settings_def UN_INTENSITY_def UN_SHAPE_def UN_LOG_def UN_NONE_def
        WA_INTENSITY_def WA_DISTANCE_def WA_NONE_def)

text \<open>
  Claim C7 as stated fails: with the unclumping mode None, an unsupported dividing-line
  string raises nothing, and the input labeling is returned.
\<close>

theorem unsupported_watershed_returns_labeling:
  "watershed_method (default_settings\<lparr>unclump_method := UN_NONE, watershed_method := ''Bogus''\<rparr>)
     \<notin> {WA_INTENSITY, WA_DISTANCE, WA_NONE} \<and>
   separate_neighboring_objects
     (default_settings\<lparr>unclump_method := UN_NONE, watershed_method := ''Bogus''\<rparr>)
     idle_kernels [[0.5]] [[True]] [[1]] 1 0.5 = Inr ([[1]], 1, 7)"
  by (simp add: separate_neighboring_objects_def WA_INTENSITY_def WA_DISTANCE_def WA_NONE_def)

subsection \<open>The maxima of the Intensity mode\<close>

lemma strel_disk_half: "strel_disk (1 / 2) = [[True]]"
  by code_simp

lemma strel_disk_three_halves:
  "strel_disk (3 / 2) = [[True, True, True], [True, True, True], [True, True, True]]"
  by code_simp

lemma get_maxima_single: "get_maxima K [[1 / 5]] [[1]] [[True]] 1 = [[1 / 5]]"
  by code_simp

lemma get_maxima_two_peaks:
  "get_maxima K [[1, 1 / 2, 1]] [[1, 1, 1]]
     [[True, True, True], [True, True, True], [True, True, True]] 1 = [[1, 0, 1]]"
  by code_simp

lemma maxima_image_threshold_unused:
  "maxima_image cfg K img msk lab t = maxima_image cfg K img msk lab t'"
  by (simp add: maxima_image_def Let_def)

text \<open>
  Claim C1, at a failing input. Intensity mode, no smoothing, suppression size 1: on the
  one-pixel image of intensity 0.2, labeled foreground, with the global threshold 0.5,
  the smoothed image is the image, and the marker image keeps the pixel at 0.2, below
  the threshold. The thresholded copy that the source computes is not the field that
  \<^verbatim>\<open>get_maxima\<close> receives.
\<close>

theorem intensity_maxima_keep_dim_peak:
  "smooth_image (unsmoothed_settings 1) [[0.2]] [[True]]
     (calc_smoothing_filter_size (unsmoothed_settings 1) / 2.35) = [[0.2]] \<and>
   maxima_image (unsmoothed_settings 1) idle_kernels [[0.2]] [[True]] [[1]] 0.5
     = Inr ([[0.2]], None, 1)"
  using get_maxima_single [of idle_kernels] strel_disk_half
  by (simp add: maxima_image_def unsmoothed_settings_def default_settings_def Let_def
        UN_LOG_def UN_INTENSITY_def smooth_image_def calc_smoothing_filter_size_def)

subsection \<open>Seed clusters and foreground components\<close>

lemma zero_where_nth:
  assumes "i < length (zero_where c a)" and "j < length (zero_where c a ! i)"
  shows "zero_where c a ! i ! j = (if c ! i ! j then 0 else a ! i ! j)"
  using assms by (simp add: zero_where_def img_map2_def)

lemma zero_where_length:
  assumes "i < length (zero_where c a)" and "j < length (zero_where c a ! i)"
  shows "i < length c \<and> j < length (c ! i) \<and> i < length a \<and> j < length (a ! i)"
  using assms by (simp add: zero_where_def img_map2_def)

lemma get_maxima_on_foreground:
  assumes "i < length (get_maxima K img lab fp f)"
    and "j < length (get_maxima K img lab fp f ! i)"
    and "get_maxima K img lab fp f ! i ! j \<noteq> 0"
  shows "i < length lab \<and> j < length (lab ! i) \<and> lab ! i ! j \<noteq> 0"
proof -
  obtain a where g: "get_maxima K img lab fp f = zero_where (img_map (\<lambda>l. l = 0) lab) a"
    by (simp add: get_maxima_def Let_def)
  from assms have i: "i < length (zero_where (img_map (\<lambda>l. l = 0) lab) a)"
    and j: "j < length (zero_where (img_map (\<lambda>l. l = 0) lab) a ! i)"
    by (simp_all add: g)
  from zero_where_length [OF i j] have l: "i < length lab" "j < length (lab ! i)"
    by (auto simp add: img_map_def)
  from assms(3) zero_where_nth [OF i j] l have "lab ! i ! j \<noteq> 0"
    by (auto simp add: g img_map_def split: if_splits)
  with l show ?thesis by simp
qed

text \<open>
  Claim C8, as the code has it. Every seed marker (a nonzero pixel of the maxima image)
  lies on a foreground pixel of the pre-unclump labeling: seeds never fall outside the
  foreground components. Their number is not bounded by the number of components.
\<close>

theorem seeds_on_foreground:
  assumes "maxima_image cfg K img msk lab t = Inr (m, d, s)"
    and "i < length m" and "j < length (m ! i)" and "m ! i ! j \<noteq> 0"
  shows "i < length lab \<and> j < length (lab ! i) \<and> lab ! i ! j \<noteq> 0"
proof -
  from assms(1) obtain g fp f where "m = get_maxima K g lab fp f"
    by (auto simp add: maxima_image_def Let_def split: if_splits)
  with assms(2-4) show ?thesis
    using get_maxima_on_foreground by blast
qed

lemma two_peaks_maxima:
  "maxima_image (unsmoothed_settings 2) idle_kernels [[1, 0.5, 1]] [[True, True, True]]
     [[1, 1, 1]] 0.4 = Inr ([[1, 0, 1]], None, 2)"
  using get_maxima_two_peaks [of idle_kernels] strel_disk_three_halves
  by (simp add: maxima_image_def unsmoothed_settings_def default_settings_def Let_def
        UN_LOG_def UN_INTENSITY_def smooth_image_def calc_smoothing_filter_size_def)

theorem seeds_on_foreground_witness:
  "maxima_image (unsmoothed_settings 2) idle_kernels [[1, 0.5, 1]] [[True, True, True]]
     [[1, 1, 1]] 0.4 = Inr ([[1, 0, 1]], None, 2) \<and>
   (0::nat) < length [[1, 0, 1 :: real]] \<and> (2::nat) < length ([[1, 0, 1 :: real]] ! 0) \<and>
   [[1, 0, 1 :: real]] ! 0 ! 2 \<noteq> 0 \<and>
   (0::nat) < length [[1, 1, 1 :: nat]] \<and> (2::nat) < length ([[1, 1, 1 :: nat]] ! 0) \<and>
   [[1, 1, 1 :: nat]] ! 0 ! 2 \<noteq> 0"
  using seeds_on_foreground [OF two_peaks_maxima, of 0 2] two_peaks_maxima
  by simp

text \<open>
  Claim C8 as stated fails: one foreground component with two intensity peaks (1, 0.5, 1
  along a row, suppression size 2) yields two seed clusters.
\<close>

theorem two_seed_clusters_in_one_component:
  "maxima_image (unsmoothed_settings 2) idle_kernels [[1, 0.5, 1]] [[True, True, True]]
     [[1, 1, 1]] 0.4 = Inr ([[1, 0, 1]], None, 2) \<and>
   \<not> seed_clusters [[1, 0, 1]] \<le> foreground_components [[1, 1, 1]]"
proof -
  have "seed_clusters [[1, 0, 1]] = 2" by code_simp
  moreover have "foreground_components [[1, 1, 1]] = 1" by code_simp
  ultimately show ?thesis using two_peaks_maxima by simp
qed


subsection \<open>The no-op of the smoother\<close>

lemma gaussian_kernel_1: "gaussian_kernel 1 1 = [exp (- 1/2) / sqrt (2 * pi), 1 / sqrt (2 * pi), exp (- 1/2) / sqrt (2 * pi)]"
  by (simp add: gaussian_kernel_def upto.simps)

lemma convolve1d_line_3_2: "convolve1d_line [a, b, c] [x, y] = [b * x + a * y, c * x + b * y]"
  by (simp add: convolve1d_line_def at0_def)

lemma convolve1d_line_3_1: "convolve1d_line [a, b, c] [x] = [b * x]"
  by (simp add: convolve1d_line_def at0_def)

lemma transpose_row: "transpose [[x, y]] = [[x], [y]]" "transpose [[x], [y]] = [[x, y]]"
  by (simp_all add: transpose.simps)

lemma fgaussian_3_row2: "fgaussian [a, b, c] [[x, y]] = [[b * (b * x) + a * (b * y), c * (b * x) + b * (b * y)]]"
  by (simp add: fgaussian_def convolve1d_axis0_def convolve1d_axis1_def transpose_row convolve1d_line_3_1 convolve1d_line_3_2)

lemma smooth_negative_unfolded:
  "smooth_image negative_filter_settings [[1, 0]] [[True, True]] 1 =
     img_map2 (\<lambda>x e. x / e) (fgaussian (gaussian_kernel 1 1) [[1, 0]])
       (fgaussian (gaussian_kernel 1 1) [[1, 1]])"
proof -
  have k: "max (py_int (- 1)) 1 = 1" by (simp add: py_int_def)
  show ?thesis
    by (simp add: smooth_image_def Let_def negative_filter_settings_def default_settings_def
        calc_smoothing_filter_size_def k zero_where_def img_map_def img_map2_def)
qed

text \<open>
  Claim C9 as stated fails for a diameter below zero: the manual filter size -2 gives
  the kernel half-width max(int(-1.0), 1) = 1, and the row 1, 0 is blurred (its second
  pixel becomes positive).
\<close>

theorem negative_filter_size_blurs:
  "calc_smoothing_filter_size negative_filter_settings \<le> 0 \<and>
   smooth_image negative_filter_settings [[1, 0]] [[True, True]] 1 \<noteq> [[1, 0]]"
proof -
  define a :: real where "a = exp (- 1/2) / sqrt (2 * pi)"
  define b :: real where "b = 1 / sqrt (2 * pi)"
  have a: "0 < a" and b: "0 < b" by (simp_all add: a_def b_def)
  have "smooth_image negative_filter_settings [[1, 0]] [[True, True]] 1 =
          [[(b * (b * 1) + a * (b * 0)) / (b * (b * 1) + a * (b * 1)),
            (a * (b * 1) + b * (b * 0)) / (a * (b * 1) + b * (b * 1))]]"
    unfolding smooth_negative_unfolded gaussian_kernel_1 fgaussian_3_row2 a_def [symmetric] b_def [symmetric] by (simp add: img_map2_def)
  moreover have "0 < (a * (b * 1) + b * (b * 0)) / (a * (b * 1) + b * (b * 1))"
    using a b by (simp add: add_pos_pos)
  ultimately have "smooth_image negative_filter_settings [[1, 0]] [[True, True]] 1 \<noteq> [[1, 0]]"
    by auto
  then show ?thesis
    by (simp add: calc_smoothing_filter_size_def negative_filter_settings_def default_settings_def)
qed

text \<open>
  Claim C9, as the code has it. Whenever the effective smoothing filter size is 0,
  \<^verbatim>\<open>smooth_image\<close> returns the input image itself, value for value, whatever the
  mask and sigma.
\<close>

theorem smooth_image_zero_filter:
  assumes "calc_smoothing_filter_size cfg = 0"
  shows "smooth_image cfg img msk sigma = img"
  using assms by (simp add: smooth_image_def)

theorem smooth_image_zero_filter_witness:
  "calc_smoothing_filter_size (unsmoothed_settings 7) = 0 \<and>
   smooth_image (unsmoothed_settings 7) [[0.2, 0.9]] [[True, False]] 1 = [[0.2, 0.9]]"
  using smooth_image_zero_filter [of "unsmoothed_settings 7" "[[0.2, 0.9]]" "[[True, False]]" 1]
  by (simp add: calc_smoothing_filter_size_def unsmoothed_settings_def default_settings_def)



subsection \<open>Pixelwise form of the filters\<close>

lemma map2_map_same: "map2 f (map g xs) (map h xs) = map (\<lambda>x. f (g x) (h x)) xs"
  by (induction xs) simp_all

lemma zero_where_img_map:
  "zero_where (img_map c L) (img_map g L) = img_map (\<lambda>l. if c l then 0 else g l) L"
proof -
  have "map2 (map2 (\<lambda>c x. if c then 0 else x)) (map (map c) L) (map (map g) L)
          = map (\<lambda>r. map2 (\<lambda>c x. if c then 0 else x) (map c r) (map g r)) L"
    by (rule map2_map_same)
  then show ?thesis
    by (simp add: zero_where_def img_map2_def img_map_def map2_map_same)
qed

lemma zero_where_img_map_self:
  "zero_where (img_map c L) L = img_map (\<lambda>l. if c l then 0 else l) L"
  using zero_where_img_map [of c L "\<lambda>l. l"] by (simp add: img_map_def)

lemma img_map_img_map: "img_map f (img_map g L) = img_map (\<lambda>l. f (g l)) L"
  by (simp add: img_map_def)

lemma img_map_cong_set:
  assumes "\<And>l. l \<in> set (concat L) \<Longrightarrow> f l = g l"
  shows "img_map f L = img_map g L"
  using assms by (auto simp add: img_map_def)

lemma np_index_nonneg: "0 \<le> l \<Longrightarrow> np_index xs l = xs ! nat l"
  by (simp add: np_index_def)

lemma label_areas_nth:
  assumes "0 \<le> l" and "l \<le> int n"
  shows "np_index (label_areas lab n) l = int (count_list (concat lab) l)"
proof -
  from assms have "nat l < n + 1" by simp
  then have "[0..<n + 1] ! nat l = nat l" by (metis add_0 nth_upt)
  with assms \<open>nat l < n + 1\<close> show ?thesis
    by (simp add: np_index_nonneg label_areas_def del: upt_Suc)
qed

subsection \<open>Size exclusion\<close>

lemma filter_on_size_pixelwise:
  assumes "list_all (\<lambda>l. 0 \<le> l \<and> l \<le> int object_count) (concat lab)"
  shows "filter_on_size cfg lab object_count =
     (if exclude_size cfg \<and> 0 < object_count then
        Inr (img_map (\<lambda>l. if real (object_area lab l) < pi * real_of_int ((size_range_min cfg)\<^sup>2) / 4
                            \<or> pi * real_of_int ((size_range_max cfg)\<^sup>2) / 4 < real (object_area lab l)
                          then 0 else l) lab,
             img_map (\<lambda>l. if real (object_area lab l) < pi * real_of_int ((size_range_min cfg)\<^sup>2) / 4
                          then 0 else l) lab)
      else Inr (lab, lab))"
proof (cases "exclude_size cfg \<and> 0 < object_count")
  case False
  then show ?thesis by (auto simp add: filter_on_size_def)
next
  case True
  from assms have bnd: "\<And>l. l \<in> set (concat lab) \<Longrightarrow> 0 \<le> l \<and> l \<le> int object_count"
    unfolding list_all_iff by blast
  have noerr: "\<not> list_ex (\<lambda>l. \<not> index_ok (object_count + 1) l) (concat lab)"
    unfolding list_ex_iff index_ok_def using bnd by fastforce
  have ar: "\<And>l. l \<in> set (concat lab) \<Longrightarrow>
              np_index (label_areas lab object_count) l = int (object_area lab l)"
    unfolding object_area_def using bnd by (intro label_areas_nth) auto
  show ?thesis
    using True noerr
    apply (simp add: filter_on_size_def Let_def img_map_img_map zero_where_img_map_self
        zero_where_img_map power2_eq_square)
    apply (intro conjI img_map_cong_set)
     apply (auto simp add: ar)
    done
qed

text \<open>
  Claim C5. On a label map whose labels lie between 0 and \<^verbatim>\<open>object_count\<close>, with size
  exclusion enabled and \<^verbatim>\<open>object_count > 0\<close>, \<^verbatim>\<open>filter_on_size\<close> returns as its
  second result (the small-removed checkpoint) the map in which exactly the pixels of
  the objects of area below pi * min_diameter^2 / 4 are zeroed, and as its first result
  that map with, in addition, exactly the pixels of the objects of area above
  pi * max_diameter^2 / 4 zeroed; every other pixel keeps its label. With size exclusion
  disabled or no object, both results are the input.
\<close>

theorem filter_on_size_spec:
  assumes "list_all (\<lambda>l. 0 \<le> l \<and> l \<le> int object_count) (concat lab)"
  shows "filter_on_size cfg lab object_count =
     (if exclude_size cfg \<and> 0 < object_count then
        Inr (img_map (\<lambda>l. if real (object_area lab l) < pi * real_of_int ((size_range_min cfg)\<^sup>2) / 4
                            \<or> pi * real_of_int ((size_range_max cfg)\<^sup>2) / 4 < real (object_area lab l)
                          then 0 else l) lab,
             img_map (\<lambda>l. if real (object_area lab l) < pi * real_of_int ((size_range_min cfg)\<^sup>2) / 4
                          then 0 else l) lab)
      else Inr (lab, lab))"
  using assms by (rule filter_on_size_pixelwise)

text \<open>
  A label above \<^verbatim>\<open>object_count\<close> or below \<^verbatim>\<open>- object_count - 1\<close> makes the lookup of the
  areas raise.
\<close>

lemma filter_on_size_label_out_of_range:
  assumes "exclude_size cfg" and "0 < object_count"
    and "l \<in> set (concat lab)" and "int object_count < l \<or> l < - int object_count - 1"
  shows "filter_on_size cfg lab object_count = Inl IndexError"
proof -
  from assms(3,4) have "list_ex (\<lambda>l. \<not> index_ok (object_count + 1) l) (concat lab)"
    unfolding list_ex_iff index_ok_def by (intro bexI [of _ l]) auto
  with assms(1,2) show ?thesis by (simp add: filter_on_size_def Let_def)
qed

lemma three_sizes_areas:
  "object_area three_sizes 0 = 2" "object_area three_sizes 1 = 1"
  "object_area three_sizes 2 = 5" "object_area three_sizes 3 = 16"
  by (simp_all add: object_area_def three_sizes_def)

theorem filter_on_size_spec_witness:
  "list_all (\<lambda>l. 0 \<le> l \<and> l \<le> int 3) (concat three_sizes) \<and>
   filter_on_size (default_settings\<lparr>size_range_min := 2, size_range_max := 4\<rparr>) three_sizes 3 =
     Inr ([[0, 0, 2, 2, 2, 2, 2, 0], [0, 0, 0, 0, 0, 0, 0, 0], [0, 0, 0, 0, 0, 0, 0, 0]],
          [[0, 0, 2, 2, 2, 2, 2, 0], [3, 3, 3, 3, 3, 3, 3, 3], [3, 3, 3, 3, 3, 3, 3, 3]])"
proof -
  define cfg where "cfg = default_settings\<lparr>size_range_min := 2, size_range_max := 4\<rparr>"
  define f :: "int \<Rightarrow> int" where
    "f = (\<lambda>l. if real (object_area three_sizes l) < pi * real_of_int ((size_range_min cfg)\<^sup>2) / 4
                 \<or> pi * real_of_int ((size_range_max cfg)\<^sup>2) / 4 < real (object_area three_sizes l)
               then 0 else l)"
  define g :: "int \<Rightarrow> int" where
    "g = (\<lambda>l. if real (object_area three_sizes l) < pi * real_of_int ((size_range_min cfg)\<^sup>2) / 4
               then 0 else l)"
  have b: "list_all (\<lambda>l. 0 \<le> l \<and> l \<le> int 3) (concat three_sizes)"
    by (simp add: three_sizes_def)
  have c: "exclude_size cfg" "size_range_min cfg = 2" "size_range_max cfg = 4"
    by (simp_all add: cfg_def default_settings_def)
  have fv: "f 0 = 0" "f 1 = 0" "f 2 = 2" "f 3 = 0"
    using pi_ge_two pi_less_4 by (simp_all add: f_def c three_sizes_areas)
  have gv: "g 0 = 0" "g 1 = 0" "g 2 = 2" "g 3 = 3"
    using pi_ge_two pi_less_4 by (simp_all add: g_def c three_sizes_areas)
  have "filter_on_size cfg three_sizes 3 = Inr (img_map f three_sizes, img_map g three_sizes)"
    using filter_on_size_spec [OF b, of cfg] c(1) by (simp add: f_def g_def)
  moreover have "img_map f three_sizes =
      [[0, 0, 2, 2, 2, 2, 2, 0], [0, 0, 0, 0, 0, 0, 0, 0], [0, 0, 0, 0, 0, 0, 0, 0]]"
    unfolding three_sizes_def img_map_def list.map fv ..
  moreover have "img_map g three_sizes =
      [[0, 0, 2, 2, 2, 2, 2, 0], [3, 3, 3, 3, 3, 3, 3, 3], [3, 3, 3, 3, 3, 3, 3, 3]]"
    unfolding three_sizes_def img_map_def list.map gv ..
  ultimately show ?thesis using b by (simp add: cfg_def)
qed

subsection \<open>The reported diameters\<close>

text \<open>
  Claim C4, at a failing input. For one object of 4 pixels the code reports
  sqrt(4) * 2 / pi = 4 / pi for both percentiles, which is not the equivalent diameter
  2 * sqrt(4 / pi) of the claim: the division by pi stands outside the square root.
\<close>

theorem percentile_diameters_misplaced_pi:
  "percentile_diameters [[1, 1], [1, 1]] 1 = Some (4 / pi, 4 / pi) \<and>
   4 / pi \<noteq> 2 * sqrt (4 / pi)"
proof -
  have "percentile_diameters [[1, 1], [1, 1]] 1 = Some (4 / pi, 4 / pi)"
    by (simp add: percentile_diameters_def Let_def)
  moreover have "4 / pi \<noteq> 2 * sqrt (4 / pi)"
  proof
    assume e: "4 / pi = 2 * sqrt (4 / pi)"
    have "(4 / pi)\<^sup>2 = (2 * sqrt (4 / pi))\<^sup>2" using e by simp
    then have "16 / (pi * pi) = 16 / pi"
      by (simp add: power2_eq_square)
    then have "pi * pi = pi" by (simp add: field_simps)
    then have "pi = 1" by simp
    with pi_ge_two show False by simp
  qed
  ultimately show ?thesis by simp
qed

subsection \<open>Border exclusion\<close>

lemma wf_image_row:
  assumes "wf_image lab" and "i < nrows lab"
  shows "length (lab ! i) = ncols lab"
  using assms by (simp add: wf_image_def nrows_def list_all_length)

lemma wf_image_pos:
  assumes "wf_image lab"
  shows "0 < nrows lab" and "0 < ncols lab"
  using assms by (simp_all add: wf_image_def nrows_def)

lemma hard_border_labels_iff:
  assumes wf: "wf_image lab"
  shows "l \<in> set (hard_border_labels lab) \<longleftrightarrow> touches_border lab l"
proof
  assume "l \<in> set (hard_border_labels lab)"
  then consider
      (top) "l \<in> set (lab ! 0)"
    | (left) "l \<in> set (map (\<lambda>r. r ! 0) lab)"
    | (bottom) "l \<in> set (lab ! (nrows lab - 1))"
    | (right) "l \<in> set (map (\<lambda>r. r ! (ncols lab - 1)) lab)"
    by (auto simp add: hard_border_labels_def)
  then show "touches_border lab l"
  proof cases
    case top
    then obtain j where "j < length (lab ! 0)" "lab ! 0 ! j = l"
      by (auto simp add: in_set_conv_nth)
    with wf_image_row [OF wf, of 0] wf_image_pos [OF wf] show ?thesis
      unfolding touches_border_def by (intro exI [of _ 0] exI [of _ j]) simp
  next
    case left
    then obtain i where "i < length lab" "lab ! i ! 0 = l"
      by (auto simp add: in_set_conv_nth)
    with wf_image_pos [OF wf] show ?thesis
      unfolding touches_border_def by (intro exI [of _ i] exI [of _ 0]) (simp add: nrows_def)
  next
    case bottom
    then obtain j where "j < length (lab ! (nrows lab - 1))" "lab ! (nrows lab - 1) ! j = l"
      by (auto simp add: in_set_conv_nth)
    with wf_image_row [OF wf, of "nrows lab - 1"] wf_image_pos [OF wf] show ?thesis
      unfolding touches_border_def by (intro exI [of _ "nrows lab - 1"] exI [of _ j]) simp
  next
    case right
    then obtain i where "i < length lab" "lab ! i ! (ncols lab - 1) = l"
      by (auto simp add: in_set_conv_nth)
    with wf_image_pos [OF wf] show ?thesis
      unfolding touches_border_def
      by (intro exI [of _ i] exI [of _ "ncols lab - 1"]) (simp add: nrows_def)
  qed
next
  assume "touches_border lab l"
  then obtain i j where ij: "i < nrows lab" "j < ncols lab"
      "i = 0 \<or> i = nrows lab - 1 \<or> j = 0 \<or> j = ncols lab - 1" "lab ! i ! j = l"
    unfolding touches_border_def by blast
  have len: "length (lab ! i) = ncols lab" using wf_image_row [OF wf ij(1)] .
  from ij(3) show "l \<in> set (hard_border_labels lab)"
  proof (elim disjE)
    assume "i = 0"
    with ij len have "l \<in> set (lab ! 0)" by (auto simp add: in_set_conv_nth)
    then show ?thesis by (simp add: hard_border_labels_def)
  next
    assume "i = nrows lab - 1"
    with ij len have "l \<in> set (lab ! (nrows lab - 1))" by (auto simp add: in_set_conv_nth)
    then show ?thesis by (simp add: hard_border_labels_def)
  next
    assume "j = 0"
    with ij have "l \<in> set (map (\<lambda>r. r ! 0) lab)"
      by (auto simp add: in_set_conv_nth nrows_def intro!: exI [of _ i])
    then show ?thesis by (simp add: hard_border_labels_def)
  next
    assume "j = ncols lab - 1"
    with ij have "l \<in> set (map (\<lambda>r. r ! (ncols lab - 1)) lab)"
      by (auto simp add: in_set_conv_nth nrows_def intro!: exI [of _ i])
    then show ?thesis by (simp add: hard_border_labels_def)
  qed
qed

lemma fold_max_ge: "a \<le> fold max xs (a::int)"
  by (induction xs arbitrary: a) (auto intro: order_trans [OF max.cobounded2])

lemma fold_max_mem: "x \<in> set xs \<Longrightarrow> x \<le> fold max xs (a::int)"
proof (induction xs arbitrary: a)
  case Nil
  then show ?case by simp
next
  case (Cons y ys)
  show ?case
  proof (cases "x = y")
    case True
    have "y \<le> max y a" by simp
    also have "\<dots> \<le> fold max ys (max y a)" by (rule fold_max_ge)
    finally show ?thesis using True by simp
  next
    case False
    with Cons show ?thesis by simp
  qed
qed

lemma np_max_ge:
  assumes "l \<in> set (concat lab)"
  shows "l \<le> np_max lab"
proof (cases "concat lab")
  case Nil
  with assms show ?thesis by simp
next
  case (Cons x r)
  with assms have "l = x \<or> l \<in> set r" by simp
  then have "l \<le> fold max r x"
    using fold_max_ge [of x r] fold_max_mem [of l r x] by blast
  with Cons show ?thesis by (simp add: np_max_def)
qed

lemma label_histogram_nth:
  assumes "l < n"
  shows "label_histogram bl n ! l = count_list bl (int l)"
  using assms by (simp add: label_histogram_def)

lemma label_histogram_pos:
  assumes "l < n"
  shows "0 < label_histogram bl n ! l \<longleftrightarrow> int l \<in> set bl"
proof -
  have "count_list bl (int l) \<noteq> 0 \<longleftrightarrow> int l \<in> set bl"
    by (simp only: count_list_0_iff not_not)
  then have "0 < count_list bl (int l) \<longleftrightarrow> int l \<in> set bl"
    by (simp only: neq0_conv)
  then show ?thesis
    by (simp only: label_histogram_nth [OF assms])
qed

lemma label_histogram_objects:
  assumes "\<And>l. l \<in> set bl \<Longrightarrow> 0 \<le> l \<and> l \<le> m"
  shows "list_ex (\<lambda>h. 0 < h) (tl (label_histogram bl (nat (m + 1)))) \<longleftrightarrow> (\<exists>l \<in> set bl. l \<noteq> 0)"
proof
  assume "list_ex (\<lambda>h. 0 < h) (tl (label_histogram bl (nat (m + 1))))"
  then obtain k where k: "k < length (tl (label_histogram bl (nat (m + 1))))"
      "0 < tl (label_histogram bl (nat (m + 1))) ! k"
    by (auto simp add: list_ex_iff in_set_conv_nth)
  then have km: "Suc k < nat (m + 1)" by (simp add: label_histogram_def)
  from k have "0 < label_histogram bl (nat (m + 1)) ! Suc k"
    by (simp add: nth_tl)
  with label_histogram_pos [OF km] have "int (Suc k) \<in> set bl" by simp
  moreover have "int (Suc k) \<noteq> 0" by simp
  ultimately show "\<exists>l \<in> set bl. l \<noteq> 0" by blast
next
  assume "\<exists>l \<in> set bl. l \<noteq> 0"
  then obtain l where l: "l \<in> set bl" "l \<noteq> 0" by blast
  from assms l have lm: "0 < l" "l \<le> m" by force+
  define k where "k = nat l - 1"
  from lm have lk: "l = int (Suc k)" by (simp add: k_def)
  from lm lk have km: "Suc k < nat (m + 1)" by simp
  then have len: "k < length (tl (label_histogram bl (nat (m + 1))))"
    by (simp add: label_histogram_def)
  from label_histogram_pos [OF km] l lk have "0 < label_histogram bl (nat (m + 1)) ! Suc k"
    by simp
  with len have pos: "0 < tl (label_histogram bl (nat (m + 1))) ! k" by (simp add: nth_tl)
  from len have mem: "tl (label_histogram bl (nat (m + 1))) ! k
                        \<in> set (tl (label_histogram bl (nat (m + 1))))"
    by (rule nth_mem)
  show "list_ex (\<lambda>h. 0 < h) (tl (label_histogram bl (nat (m + 1))))"
    unfolding list_ex_iff using pos by (rule bexI [OF _ mem])
qed

lemma zero_histogram_labels_erases:
  "zero_histogram_labels h lab =
     (if list_ex (\<lambda>l. \<not> index_ok (length h) l) (concat lab) then Inl IndexError
      else Inr (img_map (\<lambda>l. if 0 < np_index h l then 0 else l) lab))"
  by (simp add: zero_histogram_labels_def Let_def img_map_img_map zero_where_img_map_self)

lemma zero_histogram_labels_pixelwise:
  assumes nonneg: "\<And>l. l \<in> set (concat lab) \<Longrightarrow> 0 \<le> l"
  shows "zero_histogram_labels (label_histogram bl (nat (np_max lab + 1))) lab =
           Inr (img_map (\<lambda>l. if l \<in> set bl then 0 else l) lab)"
proof -
  let ?h = "label_histogram bl (nat (np_max lab + 1))"
  have len: "length ?h = nat (np_max lab + 1)" by (simp add: label_histogram_def)
  have rng: "\<And>l. l \<in> set (concat lab) \<Longrightarrow> 0 \<le> l \<and> nat l < nat (np_max lab + 1)"
    using nonneg np_max_ge by fastforce
  have ok: "\<not> list_ex (\<lambda>l. \<not> index_ok (length ?h) l) (concat lab)"
    unfolding list_ex_iff len index_ok_def using rng by fastforce
  have "img_map (\<lambda>l. if 0 < np_index ?h l then 0 else l) lab
          = img_map (\<lambda>l. if l \<in> set bl then 0 else l) lab"
  proof (rule img_map_cong_set)
    fix l assume "l \<in> set (concat lab)"
    then have r: "0 \<le> l" "nat l < nat (np_max lab + 1)" using rng by blast+
    have "0 < ?h ! nat l \<longleftrightarrow> int (nat l) \<in> set bl"
      using r(2) by (rule label_histogram_pos)
    with r(1) show "(if 0 < np_index ?h l then 0 else l) = (if l \<in> set bl then 0 else l)"
      by (simp add: np_index_nonneg)
  qed
  with ok show ?thesis by (simp only: zero_histogram_labels_erases if_False)
qed

lemma in_concat_nth:
  assumes "i < length lab" and "j < length (lab ! i)"
  shows "lab ! i ! j \<in> set (concat lab)"
  using assms by (auto intro!: bexI [of _ "lab ! i"])

lemma hard_border_labels_subset:
  assumes wf: "wf_image lab" and "l \<in> set (hard_border_labels lab)"
  shows "l \<in> set (concat lab)"
proof -
  from assms have "touches_border lab l" by (simp add: hard_border_labels_iff)
  then obtain i j where "i < nrows lab" "j < ncols lab" "lab ! i ! j = l"
    unfolding touches_border_def by blast
  with wf_image_row [OF wf, of i] in_concat_nth [of i lab j] show ?thesis
    by (simp add: nrows_def)
qed

lemma mask_border_labels_subset:
  assumes "l \<in> set (mask_border_labels m lab)"
  shows "l \<in> set (concat lab)"
proof -
  from assms obtain b where "(b, l) \<in> set (zip (concat (img_map2 (\<and>) (img_map Not (binary_erosion m)) m)) (concat lab))"
    by (auto simp add: mask_border_labels_def Let_def)
  then show ?thesis by (rule set_zip_rightD)
qed

lemma img_map_ident:
  assumes "\<And>l. l \<in> set (concat L) \<Longrightarrow> f l = l"
  shows "img_map f L = L"
proof -
  have "img_map f L = img_map (\<lambda>l. l) L" using assms by (rule img_map_cong_set)
  then show ?thesis by (simp add: img_map_def)
qed

subsection \<open>The border of the mask\<close>

lemma zip_concat:
  "map length A = map length L \<Longrightarrow> zip (concat A) (concat L) = concat (map2 zip A L)"
proof (induction A arbitrary: L)
  case Nil
  then show ?case by simp
next
  case (Cons a A)
  then obtain b B where L: "L = b # B" by (cases L) auto
  with Cons.prems have "length a = length b" "map length A = map length B" by simp_all
  with Cons.IH [of B] L show ?case by simp
qed

lemma same_shape_length:
  assumes "same_shape A L"
  shows "length A = length L"
  using assms unfolding same_shape_def by (metis length_map)

lemma same_shape_row:
  assumes "same_shape A L" and "i < length L"
  shows "length (A ! i) = length (L ! i)"
proof -
  from assms have "i < length A" by (simp add: same_shape_length)
  then have "length (A ! i) = map length A ! i" by simp
  also have "\<dots> = map length L ! i" using assms(1) by (simp add: same_shape_def)
  also have "\<dots> = length (L ! i)" using assms(2) by simp
  finally show ?thesis .
qed

lemma set_zip_concat:
  assumes sh: "same_shape A L"
  shows "(b, l) \<in> set (zip (concat A) (concat L)) \<longleftrightarrow>
           (\<exists>i j. i < length L \<and> j < length (L ! i) \<and> A ! i ! j = b \<and> L ! i ! j = l)"
proof -
  have len: "length A = length L" using sh by (rule same_shape_length)
  have z: "zip (concat A) (concat L) = concat (map2 zip A L)"
    using sh unfolding same_shape_def by (rule zip_concat)
  have row: "(b, l) \<in> set (zip (A ! i) (L ! i)) \<longleftrightarrow>
               (\<exists>j < length (L ! i). A ! i ! j = b \<and> L ! i ! j = l)" if "i < length L" for i
    using same_shape_row [OF sh that] by (auto simp add: set_zip)
  have "map2 zip A L = map (\<lambda>i. zip (A ! i) (L ! i)) [0..<length L]"
    using len by (intro nth_equalityI) simp_all
  then have "(b, l) \<in> set (concat (map2 zip A L)) \<longleftrightarrow>
          (\<exists>i < length L. (b, l) \<in> set (zip (A ! i) (L ! i)))"
    by auto
  also have "\<dots> \<longleftrightarrow> (\<exists>i < length L. \<exists>j < length (L ! i). A ! i ! j = b \<and> L ! i ! j = l)"
    using row by blast
  finally show ?thesis unfolding z by blast
qed

lemma map_length_nth: "map (\<lambda>i. length (m ! i)) [0..<length m] = map length m"
proof -
  have "map (\<lambda>i. length (m ! i)) [0..<length m] = map length (map (\<lambda>i. m ! i) [0..<length m])"
    by (simp add: o_def)
  then show ?thesis by (simp only: map_nth)
qed

lemma binary_erosion_shape: "same_shape (binary_erosion m) m"
  by (simp add: same_shape_def binary_erosion_def o_def map_length_nth)

lemma img_map2_shape:
  "map length a = map length b \<Longrightarrow> map length (img_map2 f a b) = map length b"
proof (induction a arbitrary: b)
  case Nil
  then show ?case by (simp add: img_map2_def)
next
  case (Cons x xs)
  then obtain y ys where b: "b = y # ys" by (cases b) auto
  with Cons.prems have "length x = length y" "map length xs = map length ys" by simp_all
  with Cons.IH [of ys] b show ?case by (simp add: img_map2_def)
qed

lemma mask_border_shape:
  "same_shape (img_map2 (\<and>) (img_map Not (binary_erosion m)) m) m"
proof -
  have "map length (img_map Not (binary_erosion m)) = map length m"
    using binary_erosion_shape [of m] by (simp add: same_shape_def img_map_def o_def)
  then show ?thesis unfolding same_shape_def by (rule img_map2_shape)
qed

lemma binary_erosion_nth:
  assumes "i < length m" and "j < length (m ! i)"
  shows "binary_erosion m ! i ! j =
           (bool_at m (int i) (int j) \<and> bool_at m (int i - 1) (int j) \<and>
            bool_at m (int i + 1) (int j) \<and> bool_at m (int i) (int j - 1) \<and>
            bool_at m (int i) (int j + 1))"
  using assms by (simp add: binary_erosion_def)

lemma mask_border_nth:
  assumes "i < length m" and "j < length (m ! i)"
  shows "img_map2 (\<and>) (img_map Not (binary_erosion m)) m ! i ! j =
           (\<not> binary_erosion m ! i ! j \<and> m ! i ! j)"
proof -
  have l1: "length (binary_erosion m) = length m" by (simp add: binary_erosion_def)
  have l2: "length (binary_erosion m ! i) = length (m ! i)"
    using assms(1) by (simp add: binary_erosion_def)
  show ?thesis using assms l1 l2 by (simp add: img_map2_def img_map_def)
qed

lemma wf_image_same_shape:
  assumes wf: "wf_image lab" and sh: "same_shape m lab"
  shows "wf_image m" and "nrows m = nrows lab" and "ncols m = ncols lab"
proof -
  have len: "length m = length lab" using sh by (rule same_shape_length)
  from wf have ne: "lab \<noteq> []" by (simp add: wf_image_def)
  with len have mne: "m \<noteq> []" by auto
  show n: "nrows m = nrows lab" using len by (simp add: nrows_def)
  from ne mne have "ncols m = length (m ! 0)" "ncols lab = length (lab ! 0)"
    by (simp_all add: ncols_def nth_Cons_0 split: list.splits)
  moreover have "length (m ! 0) = length (lab ! 0)"
    using same_shape_row [OF sh, of 0] ne by simp
  ultimately show c: "ncols m = ncols lab" by simp
  have "\<And>i. i < length m \<Longrightarrow> length (m ! i) = ncols m"
    using same_shape_row [OF sh] wf_image_row [OF wf] len c by (simp add: nrows_def)
  then have "list_all (\<lambda>r. length r = ncols m) m" by (simp add: list_all_length)
  with mne c wf show "wf_image m" by (simp add: wf_image_def)
qed

lemma bool_at_rect:
  assumes wf: "wf_image m" and i: "i < nrows m" and j: "j < ncols m"
  shows "bool_at m (int i) (int j) = m ! i ! j"
    and "bool_at m (int i - 1) (int j) = (i \<noteq> 0 \<and> m ! (i - 1) ! j)"
    and "bool_at m (int i + 1) (int j) = (i + 1 \<noteq> nrows m \<and> m ! (i + 1) ! j)"
    and "bool_at m (int i) (int j - 1) = (j \<noteq> 0 \<and> m ! i ! (j - 1))"
    and "bool_at m (int i) (int j + 1) = (j + 1 \<noteq> ncols m \<and> m ! i ! (j + 1))"
proof -
  have row: "\<And>k. k < nrows m \<Longrightarrow> length (m ! k) = ncols m"
    using wf by (rule wf_image_row)
  show "bool_at m (int i) (int j) = m ! i ! j"
    using i j row [of i] by (simp add: bool_at_def nrows_def)
  show "bool_at m (int i - 1) (int j) = (i \<noteq> 0 \<and> m ! (i - 1) ! j)"
  proof (cases i)
    case 0
    then show ?thesis by (simp add: bool_at_def)
  next
    case (Suc k)
    with i have "k < nrows m" by simp
    with Suc j row [of k] show ?thesis by (simp add: bool_at_def nrows_def)
  qed
  show "bool_at m (int i + 1) (int j) = (i + 1 \<noteq> nrows m \<and> m ! (i + 1) ! j)"
  proof (cases "i + 1 < nrows m")
    case True
    have "nat (int i + 1) = i + 1" by simp
    with True j row [of "i + 1"] show ?thesis by (simp add: bool_at_def nrows_def)
  next
    case False
    with i have "i + 1 = nrows m" by simp
    then show ?thesis by (simp add: bool_at_def nrows_def)
  qed
  show "bool_at m (int i) (int j - 1) = (j \<noteq> 0 \<and> m ! i ! (j - 1))"
  proof (cases j)
    case 0
    then show ?thesis by (simp add: bool_at_def)
  next
    case (Suc k)
    with i j row [of i] show ?thesis by (simp add: bool_at_def nrows_def)
  qed
  show "bool_at m (int i) (int j + 1) = (j + 1 \<noteq> ncols m \<and> m ! i ! (j + 1))"
  proof (cases "j + 1 < ncols m")
    case True
    have "nat (int j + 1) = j + 1" by simp
    with True i row [of i] show ?thesis by (simp add: bool_at_def nrows_def)
  next
    case False
    with j have "j + 1 = ncols m" by simp
    with i row [of i] show ?thesis by (simp add: bool_at_def nrows_def)
  qed
qed

lemma mask_border_pixel:
  assumes wf: "wf_image m" and i: "i < nrows m" and j: "j < ncols m"
  shows "img_map2 (\<and>) (img_map Not (binary_erosion m)) m ! i ! j = on_mask_border m i j"
proof -
  have ij: "i < length m" "j < length (m ! i)"
    using i j wf_image_row [OF wf i] by (simp_all add: nrows_def)
  show ?thesis
    unfolding mask_border_nth [OF ij] binary_erosion_nth [OF ij] bool_at_rect [OF wf i j]
      on_mask_border_def
    by blast
qed

lemma mask_border_labels_iff:
  assumes wf: "wf_image lab" and sh: "same_shape m lab"
  shows "l \<in> set (mask_border_labels m lab) \<longleftrightarrow> touches_mask_border m lab l"
proof -
  let ?mb = "img_map2 (\<and>) (img_map Not (binary_erosion m)) m"
  have wfm: "wf_image m" and nr: "nrows m = nrows lab" and nc: "ncols m = ncols lab"
    using wf_image_same_shape [OF wf sh] by blast+
  have "same_shape ?mb lab"
    using mask_border_shape [of m] sh by (simp add: same_shape_def)
  then have z: "\<And>b. (b, l) \<in> set (zip (concat ?mb) (concat lab)) \<longleftrightarrow>
           (\<exists>i j. i < length lab \<and> j < length (lab ! i) \<and> ?mb ! i ! j = b \<and> lab ! i ! j = l)"
    by (rule set_zip_concat)
  have "l \<in> set (mask_border_labels m lab) \<longleftrightarrow> (True, l) \<in> set (zip (concat ?mb) (concat lab))"
    by (force simp add: mask_border_labels_def Let_def)
  also have "\<dots> \<longleftrightarrow> (\<exists>i j. i < length lab \<and> j < length (lab ! i) \<and> ?mb ! i ! j \<and> lab ! i ! j = l)"
    unfolding z by simp
  also have "\<dots> \<longleftrightarrow> (\<exists>i j. i < nrows lab \<and> j < ncols lab \<and> on_mask_border m i j \<and> lab ! i ! j = l)"
  proof -
    have "i < length lab \<and> j < length (lab ! i) \<and> ?mb ! i ! j \<and> lab ! i ! j = l \<longleftrightarrow>
          i < nrows lab \<and> j < ncols lab \<and> on_mask_border m i j \<and> lab ! i ! j = l" for i j
    proof (cases "i < nrows lab")
      case False
      then show ?thesis by (simp add: nrows_def)
    next
      case i: True
      show ?thesis
      proof (cases "j < ncols lab")
        case False
        with i wf_image_row [OF wf i] show ?thesis by (simp add: nrows_def)
      next
        case j: True
        have "?mb ! i ! j = on_mask_border m i j"
          using wfm i j nr nc by (intro mask_border_pixel) simp_all
        with i j wf_image_row [OF wf i] show ?thesis by (simp add: nrows_def)
      qed
    qed
    then show ?thesis by simp
  qed
  finally show ?thesis unfolding touches_mask_border_def .
qed

text \<open>
  Claim C6. On a label map with at least one pixel and no negative label,
  \<^verbatim>\<open>filter_on_border\<close> with border exclusion enabled zeroes every object that has a pixel
  on row 0, the last row, column 0 or the last column, when there is such an object, and
  leaves the other objects. When no object touches the border of the array and the image
  carries a mask (of the shape of the label map), it zeroes instead exactly the objects
  that have a pixel on the border of the mask, that is a valid pixel with an invalid or
  missing neighbour (the fallback), and only then. Without a mask, or with border
  exclusion disabled, it returns the labels unchanged.
\<close>

theorem filter_on_border_spec:
  assumes wf: "wf_image lab"
    and nonneg: "list_all (\<lambda>l. 0 \<le> l) (concat lab)"
    and shape: "has_mask cpimg \<Longrightarrow> same_shape (image_mask cpimg) lab"
  shows "filter_on_border cfg cpimg lab =
     Inr (if \<not> exclude_border_objects cfg then lab
          else if \<exists>l. l \<noteq> 0 \<and> touches_border lab l then
            img_map (\<lambda>l. if touches_border lab l then 0 else l) lab
          else if has_mask cpimg then
            img_map (\<lambda>l. if touches_mask_border (image_mask cpimg) lab l then 0 else l) lab
          else lab)"
proof (cases "exclude_border_objects cfg")
  case False
  then show ?thesis by (simp add: filter_on_border_def)
next
  case True
  let ?hbl = "hard_border_labels lab"
  let ?mbl = "mask_border_labels (image_mask cpimg) lab"
  let ?n = "nat (np_max lab + 1)"
  from nonneg have nn: "\<And>l. l \<in> set (concat lab) \<Longrightarrow> 0 \<le> l"
    unfolding list_all_iff by blast
  have nonempty: "\<not> (nrows lab = 0 \<or> ncols lab = 0)"
    using wf_image_pos [OF wf] by simp
  have hb_rng: "\<And>l. l \<in> set ?hbl \<Longrightarrow> 0 \<le> l \<and> l \<le> np_max lab"
    using hard_border_labels_subset [OF wf] np_max_ge nn by blast
  have mb_rng: "\<And>l. l \<in> set ?mbl \<Longrightarrow> 0 \<le> l \<and> l \<le> np_max lab"
    using mask_border_labels_subset np_max_ge nn by blast
  have hb_ok: "\<not> list_ex (\<lambda>l. l < 0) ?hbl"
    unfolding list_ex_iff using hb_rng by fastforce
  have mb_ok: "\<not> list_ex (\<lambda>l. l < 0) ?mbl"
    unfolding list_ex_iff using mb_rng by fastforce
  have hard: "list_ex (\<lambda>h. 0 < h) (tl (label_histogram ?hbl ?n)) \<longleftrightarrow>
                (\<exists>l. l \<noteq> 0 \<and> touches_border lab l)"
    using label_histogram_objects [of ?hbl "np_max lab", OF hb_rng]
          hard_border_labels_iff [OF wf] by blast
  have soft: "list_ex (\<lambda>h. 0 < h) (tl (label_histogram ?mbl ?n)) \<longleftrightarrow> (\<exists>l \<in> set ?mbl. l \<noteq> 0)"
    using label_histogram_objects [of ?mbl "np_max lab", OF mb_rng] .
  have zh: "zero_histogram_labels (label_histogram ?hbl ?n) lab =
              Inr (img_map (\<lambda>l. if touches_border lab l then 0 else l) lab)"
    using zero_histogram_labels_pixelwise [of lab ?hbl, OF nn]
    by (simp add: hard_border_labels_iff [OF wf])
  have zm: "zero_histogram_labels (label_histogram ?mbl ?n) lab =
              Inr (img_map (\<lambda>l. if l \<in> set ?mbl then 0 else l) lab)"
    using zero_histogram_labels_pixelwise [of lab ?mbl, OF nn] .
  have none: "\<not> (\<exists>l \<in> set ?mbl. l \<noteq> 0) \<Longrightarrow>
                img_map (\<lambda>l. if l \<in> set ?mbl then 0 else l) lab = lab"
    by (rule img_map_ident) auto
  have inner: "(if \<exists>l \<in> set ?mbl. l \<noteq> 0
                then Inr (img_map (\<lambda>l. if l \<in> set ?mbl then 0 else l) lab) else Inr lab)
               = (Inr (img_map (\<lambda>l. if l \<in> set ?mbl then 0 else l) lab) :: py_error + int image)"
    using none by (metis (full_types))
  have tm: "has_mask cpimg \<Longrightarrow>
              img_map (\<lambda>l. if l \<in> set ?mbl then 0 else l) lab =
              img_map (\<lambda>l. if touches_mask_border (image_mask cpimg) lab l then 0 else l) lab"
    using mask_border_labels_iff [OF wf shape] by simp
  have tm': "(if has_mask cpimg then img_map (\<lambda>l. if l \<in> set ?mbl then 0 else l) lab else lab) =
             (if has_mask cpimg then
                img_map (\<lambda>l. if touches_mask_border (image_mask cpimg) lab l then 0 else l) lab
              else lab)"
    using tm by (cases "has_mask cpimg") (simp_all only: if_True if_False)
  have "filter_on_border cfg cpimg lab =
          (if list_ex (\<lambda>h. 0 < h) (tl (label_histogram ?hbl ?n))
           then zero_histogram_labels (label_histogram ?hbl ?n) lab
           else if has_mask cpimg then
             (if list_ex (\<lambda>h. 0 < h) (tl (label_histogram ?mbl ?n))
              then zero_histogram_labels (label_histogram ?mbl ?n) lab else Inr lab)
           else Inr lab)"
    using True nonempty hb_ok mb_ok by (simp add: filter_on_border_def Let_def)
  also have "\<dots> =
          (if \<exists>l. l \<noteq> 0 \<and> touches_border lab l
           then Inr (img_map (\<lambda>l. if touches_border lab l then 0 else l) lab)
           else if has_mask cpimg then
             Inr (img_map (\<lambda>l. if l \<in> set ?mbl then 0 else l) lab)
           else Inr lab)"
    unfolding hard soft zh zm inner ..
  also have "\<dots> =
          Inr (if \<exists>l. l \<noteq> 0 \<and> touches_border lab l
               then img_map (\<lambda>l. if touches_border lab l then 0 else l) lab
               else if has_mask cpimg then
                 img_map (\<lambda>l. if l \<in> set ?mbl then 0 else l) lab
               else lab)"
    by (simp only: if_distrib [of Inr])
  also have "\<dots> =
          Inr (if \<exists>l. l \<noteq> 0 \<and> touches_border lab l
               then img_map (\<lambda>l. if touches_border lab l then 0 else l) lab
               else if has_mask cpimg then
                 img_map (\<lambda>l. if touches_mask_border (image_mask cpimg) lab l then 0 else l) lab
               else lab)"
    unfolding tm' ..
  finally show ?thesis using True by (simp only: not_True_eq_False if_False)
qed


theorem filter_on_border_spec_witness:
  "(wf_image corner_and_centre \<and> list_all (\<lambda>l. 0 \<le> l) (concat corner_and_centre) \<and>
    same_shape (image_mask notched_image) corner_and_centre \<and>
    filter_on_border default_settings notched_image corner_and_centre =
      Inr [[0, 0, 0, 0], [0, 0, 2, 0], [0, 0, 0, 0]]) \<and>
   (wf_image two_interior \<and> list_all (\<lambda>l. 0 \<le> l) (concat two_interior) \<and>
    same_shape (image_mask pierced_image) two_interior \<and>
    filter_on_border default_settings pierced_image two_interior =
      Inr [[0, 0, 0, 0, 0], [0, 0, 0, 0, 0], [0, 0, 0, 0, 0], [0, 1, 0, 0, 0],
           [0, 0, 0, 0, 0]] \<and>
    same_shape (image_mask corner_masked_image) two_interior \<and>
    filter_on_border default_settings corner_masked_image two_interior = Inr two_interior)"
proof -
  have wf1: "wf_image corner_and_centre"
    by (simp add: wf_image_def ncols_def corner_and_centre_def)
  have wf2: "wf_image two_interior"
    by (simp add: wf_image_def ncols_def two_interior_def)
  have nn1: "list_all (\<lambda>l. 0 \<le> l) (concat corner_and_centre)"
    by (simp add: corner_and_centre_def)
  have nn2: "list_all (\<lambda>l. 0 \<le> l) (concat two_interior)"
    by (simp add: two_interior_def)
  have sh1: "same_shape (image_mask notched_image) corner_and_centre"
    by (simp add: same_shape_def notched_image_def corner_and_centre_def)
  have sh2: "same_shape (image_mask pierced_image) two_interior"
    by (simp add: same_shape_def pierced_image_def two_interior_def)
  have sh3: "same_shape (image_mask corner_masked_image) two_interior"
    by (simp add: same_shape_def corner_masked_image_def two_interior_def)
  have ex: "exclude_border_objects default_settings" "has_mask notched_image"
      "has_mask pierced_image" "has_mask corner_masked_image"
    by (simp_all add: default_settings_def notched_image_def pierced_image_def
        corner_masked_image_def)
  have hb1: "set (hard_border_labels corner_and_centre) = {0, 1}"
    by code_simp
  have hb2: "set (hard_border_labels two_interior) = {0}"
    by code_simp
  have mb2: "set (mask_border_labels (image_mask pierced_image) two_interior) = {0, 2}"
    by code_simp
  have mb3: "set (mask_border_labels (image_mask corner_masked_image) two_interior) = {0}"
    by code_simp
  have tb1: "\<And>l. touches_border corner_and_centre l \<longleftrightarrow> l = 0 \<or> l = 1"
    using hard_border_labels_iff [OF wf1] hb1 by auto
  have tb2: "\<And>l. touches_border two_interior l \<longleftrightarrow> l = 0"
    using hard_border_labels_iff [OF wf2] hb2 by auto
  have tm2: "\<And>l. touches_mask_border (image_mask pierced_image) two_interior l
                 \<longleftrightarrow> l = 0 \<or> l = 2"
    using mask_border_labels_iff [OF wf2 sh2] mb2 by auto
  have tm3: "\<And>l. touches_mask_border (image_mask corner_masked_image) two_interior l
                 \<longleftrightarrow> l = 0"
    using mask_border_labels_iff [OF wf2 sh3] mb3 by auto
  have e1: "\<exists>l. l \<noteq> 0 \<and> touches_border corner_and_centre l"
    using tb1 by (intro exI [of _ 1]) simp
  have e2: "\<not> (\<exists>l. l \<noteq> 0 \<and> touches_border two_interior l)"
    using tb2 by simp
  define f1 where "f1 = (\<lambda>l. if touches_border corner_and_centre l then 0 else l)"
  define f2 where "f2 = (\<lambda>l. if touches_mask_border (image_mask pierced_image) two_interior l
                          then 0 else l)"
  define f3 where "f3 = (\<lambda>l. if touches_mask_border (image_mask corner_masked_image)
                                 two_interior l then 0 else l)"
  have v1: "f1 0 = 0" "f1 1 = 0" "f1 2 = 2"
    by (simp_all add: f1_def tb1)
  have v2: "f2 0 = 0" "f2 1 = 1" "f2 2 = 0"
    by (simp_all add: f2_def tm2)
  have v3: "f3 0 = 0" "f3 1 = 1" "f3 2 = 2"
    by (simp_all add: f3_def tm3)
  have r1: "img_map f1 corner_and_centre = [[0, 0, 0, 0], [0, 0, 2, 0], [0, 0, 0, 0]]"
    unfolding corner_and_centre_def img_map_def list.map v1 ..
  have r2: "img_map f2 two_interior =
      [[0, 0, 0, 0, 0], [0, 0, 0, 0, 0], [0, 0, 0, 0, 0], [0, 1, 0, 0, 0], [0, 0, 0, 0, 0]]"
    unfolding two_interior_def img_map_def list.map v2 ..
  have r3: "img_map f3 two_interior = two_interior"
    unfolding two_interior_def img_map_def list.map v3 ..
  have "filter_on_border default_settings notched_image corner_and_centre =
          Inr [[0, 0, 0, 0], [0, 0, 2, 0], [0, 0, 0, 0]]"
    using filter_on_border_spec [OF wf1 nn1 sh1, of default_settings] ex e1 r1
    by (simp only: f1_def not_True_eq_False if_False if_True simp_thms)
  moreover have "filter_on_border default_settings pierced_image two_interior =
          Inr [[0, 0, 0, 0, 0], [0, 0, 0, 0, 0], [0, 0, 0, 0, 0], [0, 1, 0, 0, 0],
               [0, 0, 0, 0, 0]]"
    using filter_on_border_spec [OF wf2 nn2 sh2, of default_settings] ex e2 r2
    by (simp only: f2_def not_True_eq_False if_False if_True simp_thms)
  moreover have "filter_on_border default_settings corner_masked_image two_interior =
          Inr two_interior"
    using filter_on_border_spec [OF wf2 nn2 sh3, of default_settings] ex e2 r3
    by (simp only: f3_def not_True_eq_False if_False if_True simp_thms)
  ultimately show ?thesis using wf1 wf2 nn1 nn2 sh1 sh2 sh3 by simp
qed

subsection \<open>The three exclusion sets\<close>

lemma nonzero_pixels_img_map:
  "nonzero_pixels (img_map f L) =
     {(i, j). i < length L \<and> j < length (L ! i) \<and> f (L ! i ! j) \<noteq> 0}"
  by (auto simp add: nonzero_pixels_def img_map_def)

lemma img_map_id: "img_map (\<lambda>l. l) L = L"
  by (simp add: img_map_def)

lemma filter_on_border_results:
  "\<exists>h. filter_on_border cfg cpimg L \<in>
     {Inl IndexError, Inl (ValueError ''negative row index found''),
      zero_histogram_labels h L, Inr L}"
proof -
  let ?n = "nat (np_max L + 1)"
  let ?h1 = "label_histogram (hard_border_labels L) ?n"
  let ?h2 = "label_histogram (mask_border_labels (image_mask cpimg) L) ?n"
  have "filter_on_border cfg cpimg L \<in>
     {Inl IndexError, Inl (ValueError ''negative row index found''),
      zero_histogram_labels ?h1 L, zero_histogram_labels ?h2 L, Inr L}"
    unfolding filter_on_border_def Let_def by simp
  then show ?thesis by blast
qed

lemma filter_on_border_erases:
  assumes "filter_on_border cfg cpimg L = Inr L'"
  shows "\<exists>f. L' = img_map f L \<and> (\<forall>l. f l = 0 \<or> f l = l)"
proof -
  from filter_on_border_results [of cfg cpimg L] assms
  consider (same) "L' = L" | (zeroed) h where "zero_histogram_labels h L = Inr L'"
    by auto
  then show ?thesis
  proof cases
    case same
    then have "L' = img_map (\<lambda>l. l) L" by (simp add: img_map_id)
    then show ?thesis by blast
  next
    case zeroed
    then have "L' = img_map (\<lambda>l. if 0 < np_index h l then 0 else l) L"
      by (simp add: zero_histogram_labels_erases split: if_splits)
    moreover have "\<forall>l. (if 0 < np_index h l then 0 else l) = 0
                       \<or> (if 0 < np_index h l then 0 else l) = l"
      by simp
    ultimately show ?thesis by blast
  qed
qed

lemma filter_on_border_disabled:
  assumes "\<not> exclude_border_objects cfg"
  shows "filter_on_border cfg cpimg L = Inr L"
  using assms by (simp add: filter_on_border_def)

lemma erase_twice:
  "\<exists>f. zero_where (img_map p2 (img_map g L)) (zero_where (img_map p1 (img_map g L)) L)
          = img_map f L \<and> (\<forall>l. f l = 0 \<or> f l = l)"
proof -
  have "zero_where (img_map p2 (img_map g L)) (zero_where (img_map p1 (img_map g L)) L)
          = img_map (\<lambda>l. if p2 (g l) then 0 else if p1 (g l) then 0 else l) L"
    by (simp only: img_map_img_map zero_where_img_map_self zero_where_img_map)
  moreover have "\<forall>l. (if p2 (g l) then 0 else if p1 (g l) then 0 else l) = 0
                     \<or> (if p2 (g l) then 0 else if p1 (g l) then 0 else l) = l"
    by simp
  ultimately show ?thesis by blast
qed

lemma filter_on_size_erases:
  assumes "filter_on_size cfg L n = Inr (L', S)"
  shows "\<exists>f. L' = img_map f L \<and> (\<forall>l. f l = 0 \<or> f l = l)"
proof (cases "exclude_size cfg \<and> 0 < n")
  case False
  with assms have "L' = img_map (\<lambda>l. l) L"
    by (auto simp add: filter_on_size_def img_map_id)
  then show ?thesis by blast
next
  case True
  define g where "g = np_index (label_areas L n)"
  define p1 where
    "p1 = (\<lambda>a. real_of_int a < pi * real_of_int (size_range_min cfg * size_range_min cfg) / 4)"
  define p2 where
    "p2 = (\<lambda>a. pi * real_of_int (size_range_max cfg * size_range_max cfg) / 4 < real_of_int a)"
  from assms True have
    "L' = zero_where (img_map p2 (img_map g L)) (zero_where (img_map p1 (img_map g L)) L)"
    by (auto simp add: filter_on_size_def Let_def g_def p1_def p2_def split: if_splits)
  then show ?thesis using erase_twice [of p2 g L p1] by simp
qed

lemma relabel_nonzero:
  "\<exists>r. fst (relabel L) = img_map r L \<and> (\<forall>l. r l = 0 \<longleftrightarrow> l = 0)"
proof -
  obtain ids where
    "fst (relabel L) = img_map (\<lambda>l. if l = 0 then 0 else 1 + int (index_of ids l)) L"
    unfolding relabel_def Let_def fst_conv by blast
  moreover have "\<forall>l. (if l = 0 then 0 else 1 + int (index_of ids l)) = 0 \<longleftrightarrow> l = 0" by simp
  ultimately show ?thesis by blast
qed


text \<open>
  What a run that returns leaves in its label maps, pixel by pixel: \<open>f\<close> is the border
  filter, \<open>g\<close> the size filter and \<open>h\<close> the renumbering; each of the two filters either
  zeroes a label or keeps it.
\<close>

lemma run_label_maps:
  assumes run: "run cfg K cpimg local_threshold global_threshold = Inr r"
  shows "\<exists>f g h. (\<forall>l. f l = 0 \<or> f l = l) \<and> (\<forall>l. g l = 0 \<or> g l = l) \<and> (\<forall>l. h l = 0 \<longleftrightarrow> l = 0) \<and>
           (exclude_border_objects cfg \<or> (\<forall>l. f l = l)) \<and>
           border_excluded_labeled_image r =
             img_map (\<lambda>l. if 0 < f l then 0 else l) (unedited_segmented r) \<and>
           size_excluded_labeled_image r =
             img_map (\<lambda>l. if 0 < g (f l) then 0 else f l) (unedited_segmented r) \<and>
           segmented r =
             (if fill_holes cfg
              then fill_labeled_holes (img_map (\<lambda>l. h (g (f l))) (unedited_segmented r))
              else img_map (\<lambda>l. h (g (f l))) (unedited_segmented r))"
proof -
  from run obtain U n s L2 L3 S where
      sep: "unedited_segmented r = U"
      and b: "filter_on_border cfg cpimg U = Inr L2"
      and z: "filter_on_size cfg L2 n = Inr (L3, S)"
      and be: "border_excluded_labeled_image r = zero_where (img_map (\<lambda>l. 0 < l) L2) U"
      and se: "size_excluded_labeled_image r = zero_where (img_map (\<lambda>l. 0 < l) L3) L2"
      and fin: "segmented r = (if fill_holes cfg then fill_labeled_holes (fst (relabel L3))
                               else fst (relabel L3))"
    by (auto simp add: run_def Let_def split: sum.splits prod.splits)
  have "\<exists>f. L2 = img_map f U \<and> (\<forall>l. f l = 0 \<or> f l = l) \<and>
             (exclude_border_objects cfg \<or> (\<forall>l. f l = l))"
  proof (cases "exclude_border_objects cfg")
    case True
    with filter_on_border_erases [OF b] show ?thesis by blast
  next
    case False
    with b have "L2 = img_map (\<lambda>l. l) U"
      by (simp add: filter_on_border_disabled img_map_id)
    then show ?thesis by blast
  qed
  then obtain f where
      f: "L2 = img_map f U" "\<forall>l. f l = 0 \<or> f l = l"
         "exclude_border_objects cfg \<or> (\<forall>l. f l = l)" by blast
  from filter_on_size_erases [OF z] obtain g where
      g: "L3 = img_map g L2" "\<forall>l. g l = 0 \<or> g l = l" by blast
  from relabel_nonzero [of L3] obtain h where
      h: "fst (relabel L3) = img_map h L3" "\<forall>l. h l = 0 \<longleftrightarrow> l = 0" by blast
  have B: "border_excluded_labeled_image r = img_map (\<lambda>l. if 0 < f l then 0 else l) U"
    by (simp add: be f(1) img_map_img_map zero_where_img_map_self)
  have Sz: "size_excluded_labeled_image r = img_map (\<lambda>l. if 0 < g (f l) then 0 else f l) U"
    by (simp add: se g(1) f(1) img_map_img_map zero_where_img_map)
  have "fst (relabel L3) = img_map (\<lambda>l. h (g (f l))) U"
    using h(1) unfolding g(1) f(1) img_map_img_map .
  with fin have F: "segmented r =
             (if fill_holes cfg then fill_labeled_holes (img_map (\<lambda>l. h (g (f l))) U)
              else img_map (\<lambda>l. h (g (f l))) U)"
    by simp
  from f(2,3) g(2) h(2) B Sz F show ?thesis unfolding sep by blast
qed


text \<open>
  The labels that the unclumping step hands to the filters are stored as 16-bit
  integers: the seed cluster number 32768 gets the marker -32768, whose negation is
  -32768 again, a negative label.
\<close>

lemma seed_label_wraps: "int16 (- int16 (- 32768)) = - 32768"
  by (simp add: int16_def)

text \<open>
  A pixel with a negative label is never counted as kept (the tests are
  \<^verbatim>\<open>labeled_image > 0\<close>), so with border exclusion disabled such a pixel of the unedited
  labels is both in the border-excluded and in the size-excluded labels.
\<close>

lemma negative_label_in_both_exclusions:
  assumes run: "run cfg K cpimg local_threshold global_threshold = Inr r"
    and off: "\<not> exclude_border_objects cfg"
    and ij: "i < length (unedited_segmented r)" "j < length (unedited_segmented r ! i)"
    and neg: "unedited_segmented r ! i ! j < 0"
  shows "(i, j) \<in> nonzero_pixels (size_excluded_labeled_image r)
                   \<inter> nonzero_pixels (border_excluded_labeled_image r)"
proof -
  define U where "U = unedited_segmented r"
  from run_label_maps [OF run] off obtain f g where
      f: "\<And>l. f l = l" and g: "\<And>l. g l = 0 \<or> g l = l"
      and B: "border_excluded_labeled_image r = img_map (\<lambda>l. if 0 < f l then 0 else l) U"
      and S: "size_excluded_labeled_image r = img_map (\<lambda>l. if 0 < g (f l) then 0 else f l) U"
    unfolding U_def by blast
  from neg have l: "U ! i ! j < 0" by (simp add: U_def)
  with g [of "U ! i ! j"] have "\<not> 0 < g (U ! i ! j)" by auto
  with l ij show ?thesis
    unfolding B S nonzero_pixels_img_map by (simp add: f U_def)
qed




















end
